theory Spec2Isabelle
  imports Complex_Main
begin

section \<open>The parallel-request limiter of the proxy\<close>

text \<open>
  A shallow embedding of \<^verbatim>\<open>litellm/proxy/hooks/parallel_request_limiter.py\<close>, the class
  \<^verbatim>\<open>_PROXY_MaxParallelRequestsHandler\<close>: the pre-call admission hook and the success and
  failure logging hooks, over an explicit cache state.
\<close>

subsection \<open>Python strings\<close>

text \<open>
  The f-strings of the source format integers and optional strings; \<open>str_int\<close> is the
  decimal rendering of a Python \<^verbatim>\<open>int\<close>, \<open>str_opt\<close> the rendering of an optional string
  (\<^verbatim>\<open>None\<close> prints as the four letters), and \<open>contains_str sub s\<close> is Python's
  \<^verbatim>\<open>sub in s\<close> on strings.
\<close>

definition digit_char :: "nat \<Rightarrow> char" where
  "digit_char d = ''0123456789'' ! d"

function str_nat :: "nat \<Rightarrow> string" where
  "str_nat n = (if n < 10 then [digit_char n] else str_nat (n div 10) @ [digit_char (n mod 10)])"
  by pat_completeness auto
termination
  by (relation "measure (\<lambda>n. n)") auto

declare str_nat.simps [simp del]

definition str_int :: "int \<Rightarrow> string" where
  "str_int i = (if i < 0 then ''-'' @ str_nat (nat (- i)) else str_nat (nat i))"

definition str_opt :: "string option \<Rightarrow> string" where
  "str_opt s = (case s of None \<Rightarrow> ''None'' | Some t \<Rightarrow> t)"

fun starts_with :: "string \<Rightarrow> string \<Rightarrow> bool" where
  "starts_with [] s = True"
| "starts_with (c # cs) [] = False"
| "starts_with (c # cs) (d # ds) = (c = d \<and> starts_with cs ds)"

fun contains_str :: "string \<Rightarrow> string \<Rightarrow> bool" where
  "contains_str sub [] = (sub = [])"
| "contains_str sub (c # cs) = (starts_with sub (c # cs) \<or> contains_str sub cs)"

subsection \<open>The clock\<close>

text \<open>
  A naive \<^verbatim>\<open>datetime\<close> is a point of the proleptic calendar with microsecond resolution;
  its arithmetic has no time zone and no leap second, so it is the count of microseconds
  since \<^verbatim>\<open>datetime.min\<close>. The fields the limiter reads are \<^verbatim>\<open>second\<close> and
  \<^verbatim>\<open>microsecond\<close>. A \<^verbatim>\<open>timedelta\<close> is a signed count of microseconds, and
  \<^verbatim>\<open>total_seconds()\<close> is that count divided by \<open>10^6\<close>, kept here as an exact rational
  (the float rounding of the quotient is not modelled). The calendar's upper end
  (year 9999) is not modelled: clock readings are taken far from it.
\<close>

datatype datetime = Datetime (since_min: nat)

datatype timedelta = Timedelta (delta_us: int)

definition dt_second :: "datetime \<Rightarrow> nat" where
  "dt_second d = (since_min d div 1000000) mod 60"

definition dt_microsecond :: "datetime \<Rightarrow> nat" where
  "dt_microsecond d = since_min d mod 1000000"

definition timedelta_minutes :: "nat \<Rightarrow> timedelta" where
  "timedelta_minutes m = Timedelta (int m * 60000000)"

definition dt_add :: "datetime \<Rightarrow> timedelta \<Rightarrow> datetime" where
  "dt_add d t = Datetime (nat (int (since_min d) + delta_us t))"

definition replace_second_microsecond :: "datetime \<Rightarrow> nat \<Rightarrow> nat \<Rightarrow> datetime" where
  "replace_second_microsecond d s us =
     Datetime (since_min d - (dt_second d * 1000000 + dt_microsecond d) + (s * 1000000 + us))"

definition dt_sub :: "datetime \<Rightarrow> datetime \<Rightarrow> timedelta" where
  "dt_sub a b = Timedelta (int (since_min a) - int (since_min b))"

definition total_seconds :: "timedelta \<Rightarrow> rat" where
  "total_seconds t = of_int (delta_us t) / 1000000"

definition time_to_next_minute :: "datetime \<Rightarrow> rat" where
  "time_to_next_minute now =
     (let next_minute = replace_second_microsecond (dt_add now (timedelta_minutes 1)) 0 0;
          seconds_to_next_minute = total_seconds (dt_sub next_minute now)
      in seconds_to_next_minute)"

subsection \<open>Counters and the cache\<close>

text \<open>
  The counter triple stored per bucket. Python integers are unbounded, so the fields are
  \<open>int\<close>; that they stay non-negative is a property of the hooks, proved below.
\<close>

record counter =
  current_requests :: int
  current_tpm :: int
  current_rpm :: int

type_synonym cache_list = "(string \<times> counter) list"

text \<open>
  Modelled from the spec: the cache (\<^verbatim>\<open>InternalUsageCache\<close>, a \<^verbatim>\<open>DualCache\<close>) is not among
  the sources; the spec's \<^verbatim>\<open>CacheStore\<close> is a key/value store with \<^verbatim>\<open>get\<close>,
  \<^verbatim>\<open>batchGet\<close>, \<^verbatim>\<open>set\<close>, \<^verbatim>\<open>batchSet\<close> and \<^verbatim>\<open>increment\<close>. The limiter keeps two
  kinds of entry in it: the integer under the literal key
  \<^verbatim>\<open>global_max_parallel_requests\<close> (always read and incremented with
  \<^verbatim>\<open>local_only=True\<close>), and a counter triple under each bucket key. Every bucket key
  ends in \<^verbatim>\<open>::request_count\<close>, so no bucket key is the literal key, and the state keeps
  the two apart: \<open>global_requests\<close> is the entry of the literal key, \<open>buckets\<close> maps a
  bucket key to its triple and the TTL (in seconds) of the write that stored it.
  Expiry is the removal of an entry.
\<close>

record cache_store =
  global_requests :: "int option"
  buckets :: "string \<Rightarrow> (counter \<times> nat) option"

definition empty_cache :: cache_store where
  "empty_cache = \<lparr>global_requests = None, buckets = (\<lambda>k. None)\<rparr>"

text \<open>Modelled from the spec: \<^verbatim>\<open>get(key)\<close> on a bucket key, the value or \<^verbatim>\<open>None\<close>.\<close>

definition async_get_cache :: "string \<Rightarrow> cache_store \<Rightarrow> counter option" where
  "async_get_cache key c = map_option fst (buckets c key)"

text \<open>Modelled from the spec: \<^verbatim>\<open>get(key, local_only)\<close> on the literal key of the global counter.\<close>

definition async_get_cache_global :: "cache_store \<Rightarrow> int option" where
  "async_get_cache_global c = global_requests c"

text \<open>
  Modelled from the spec: \<^verbatim>\<open>increment(key, delta, local_only)\<close> on the literal key of the
  global counter, "atomic add; creates as delta if absent".
\<close>

definition async_increment_cache :: "int \<Rightarrow> cache_store \<Rightarrow> cache_store" where
  "async_increment_cache v c =
     c\<lparr>global_requests := Some (case global_requests c of None \<Rightarrow> v | Some n \<Rightarrow> n + v)\<rparr>"

text \<open>Modelled from the spec: \<^verbatim>\<open>set(key, value, ttl)\<close> on a bucket key.\<close>

definition async_set_cache :: "string \<Rightarrow> counter \<Rightarrow> nat \<Rightarrow> cache_store \<Rightarrow> cache_store" where
  "async_set_cache key v ttl c = c\<lparr>buckets := (buckets c)(key \<mapsto> (v, ttl))\<rparr>"

text \<open>Modelled from the spec: \<^verbatim>\<open>batchSet([(key, value)], ttl)\<close>, the pairs stored in list order.\<close>

fun async_batch_set_cache :: "cache_list \<Rightarrow> nat \<Rightarrow> cache_store \<Rightarrow> cache_store" where
  "async_batch_set_cache [] ttl c = c"
| "async_batch_set_cache (kv # rest) ttl c =
     async_batch_set_cache rest ttl (async_set_cache (fst kv) (snd kv) ttl c)"

text \<open>Modelled from the spec: expiry of a bucket whose TTL has run out.\<close>

definition expire :: "string \<Rightarrow> cache_store \<Rightarrow> cache_store" where
  "expire key c = c\<lparr>buckets := (buckets c)(key := None)\<rparr>"

subsection \<open>The principal and the request\<close>

text \<open>
  Modelled from the spec: the declaration of \<^verbatim>\<open>UserAPIKeyAuth\<close>
  (\<^verbatim>\<open>litellm.proxy._types\<close>) is not among the sources; these are the attributes the hook
  reads, which the spec lists for its \<^verbatim>\<open>PrincipalAuth\<close>. The two per-model mappings are
  what \<^verbatim>\<open>get_key_model_tpm_limit\<close> and \<^verbatim>\<open>get_key_model_rpm_limit\<close> return (dictionaries
  from model name to limit, kept as association lists).
\<close>

record user_api_key_auth =
  api_key :: "string option"
  user_id :: "string option"
  team_id :: "string option"
  end_user_id :: "string option"
  max_parallel_requests :: "int option"
  tpm_limit :: "int option"
  rpm_limit :: "int option"
  user_tpm_limit :: "int option"
  user_rpm_limit :: "int option"
  team_tpm_limit :: "int option"
  team_rpm_limit :: "int option"
  end_user_tpm_limit :: "int option"
  end_user_rpm_limit :: "int option"
  model_tpm_limit :: "(string \<times> int) list option"
  model_rpm_limit :: "(string \<times> int) list option"

text \<open>
  Modelled from the spec: \<^verbatim>\<open>get_key_model_tpm_limit\<close> (\<^verbatim>\<open>litellm.proxy.auth.auth_utils\<close>)
  is not among the sources; it returns the principal's optional mapping
  \<^verbatim>\<open>model_tpm_limit\<close>.
\<close>

definition get_key_model_tpm_limit :: "user_api_key_auth \<Rightarrow> (string \<times> int) list option" where
  "get_key_model_tpm_limit user_api_key_dict = model_tpm_limit user_api_key_dict"

text \<open>
  Modelled from the spec: \<^verbatim>\<open>get_key_model_rpm_limit\<close> (\<^verbatim>\<open>litellm.proxy.auth.auth_utils\<close>)
  is not among the sources; it returns the principal's optional mapping
  \<^verbatim>\<open>model_rpm_limit\<close>.
\<close>

definition get_key_model_rpm_limit :: "user_api_key_auth \<Rightarrow> (string \<times> int) list option" where
  "get_key_model_rpm_limit user_api_key_dict = model_rpm_limit user_api_key_dict"

text \<open>
  The request \<^verbatim>\<open>data\<close>: the hook reads \<^verbatim>\<open>data.get("model")\<close> and
  \<^verbatim>\<open>data.get("metadata", {}).get("global_max_parallel_requests")\<close>.
\<close>

record request_data =
  model :: "string option"
  global_max_parallel_requests :: "int option"

definition sys_maxsize :: int where
  "sys_maxsize = 9223372036854775807"

text \<open>A limit that is \<^verbatim>\<open>None\<close> is replaced by \<^verbatim>\<open>sys.maxsize\<close>.\<close>

definition or_maxsize :: "int option \<Rightarrow> int" where
  "or_maxsize limit = (case limit of None \<Rightarrow> sys_maxsize | Some v \<Rightarrow> v)"

definition request_count_key :: "string \<Rightarrow> string \<Rightarrow> string" where
  "request_count_key ident precise_minute = ident @ ''::'' @ precise_minute @ ''::request_count''"

definition model_request_count_key :: "string option \<Rightarrow> string option \<Rightarrow> string \<Rightarrow> string" where
  "model_request_count_key key m precise_minute =
     str_opt key @ ''::'' @ str_opt m @ ''::'' @ precise_minute @ ''::request_count''"

definition fresh_counter :: counter where
  "fresh_counter = \<lparr>current_requests = 1, current_tpm = 0, current_rpm = 0\<rparr>"

definition reserved :: "counter \<Rightarrow> counter" where
  "reserved current = \<lparr>current_requests = current_requests current + 1,
                        current_tpm = current_tpm current,
                        current_rpm = current_rpm current\<rparr>"

subsection \<open>Rejections\<close>

text \<open>
  An \<^verbatim>\<open>HTTPException\<close>: its status code, its detail and the value of its
  \<^verbatim>\<open>retry-after\<close> header (before \<^verbatim>\<open>str\<close>). The clock reading \<open>now\<close> is the
  \<^verbatim>\<open>datetime.now()\<close> of \<^verbatim>\<open>time_to_next_minute\<close>.
\<close>

record http_exception =
  status_code :: int
  detail :: string
  retry_after :: rat

definition raise_rate_limit_error :: "datetime \<Rightarrow> string option \<Rightarrow> http_exception + 'a" where
  "raise_rate_limit_error now additional_details =
     Inl \<lparr>status_code = 429,
          detail = ''Max parallel request limit reached '' @ str_opt additional_details,
          retry_after = time_to_next_minute now\<rparr>"

definition check_key_in_limits ::
  "datetime \<Rightarrow> int \<Rightarrow> int \<Rightarrow> int \<Rightarrow> counter option \<Rightarrow> string \<Rightarrow> string \<Rightarrow> cache_list
   \<Rightarrow> http_exception + cache_list" where
  "check_key_in_limits now max_parallel tpm rpm current request_count_api_key rate_limit_type
       values_to_update =
     (case current of
        None \<Rightarrow>
          if max_parallel = 0 \<or> tpm = 0 \<or> rpm = 0 then
            raise_rate_limit_error now
              (Some (''Hit limit for '' @ rate_limit_type
                 @ ''. Current limits: max_parallel_requests: '' @ str_int max_parallel
                 @ '', tpm_limit: '' @ str_int tpm @ '', rpm_limit: '' @ str_int rpm))
          else Inr (values_to_update @ [(request_count_api_key, fresh_counter)])
      | Some cur \<Rightarrow>
          if current_requests cur < max_parallel \<and> current_tpm cur < tpm \<and> current_rpm cur < rpm
          then Inr (values_to_update @ [(request_count_api_key, reserved cur)])
          else Inl \<lparr>status_code = 429,
                    detail = ''LiteLLM Rate Limit Handler for rate limit type = '' @ rate_limit_type
                      @ ''. Crossed TPM, RPM Limit. current rpm: '' @ str_int (current_rpm cur)
                      @ '', rpm limit: '' @ str_int rpm
                      @ '', current tpm: '' @ str_int (current_tpm cur)
                      @ '', tpm limit: '' @ str_int tpm,
                    retry_after = time_to_next_minute now\<rparr>)"

subsection \<open>Pre-call admission\<close>

text \<open>
  The hooks read the clock: \<open>precise_minute\<close> is the string
  \<^verbatim>\<open>f"{current_date}-{current_hour}-{current_minute}"\<close> they build from
  \<^verbatim>\<open>datetime.now().strftime\<close>, and \<open>now\<close> is the reading taken when a rejection is raised.
  Both are inputs of the model.
\<close>

text \<open>
  The result of \<^verbatim>\<open>get_all_cache_objects\<close>: one batch read of the five keys, \<^verbatim>\<open>None\<close> for a
  key that is \<^verbatim>\<open>None\<close> or has no entry.
\<close>

record cache_object =
  co_current_global_requests :: "int option"
  co_request_count_api_key :: "counter option"
  co_request_count_user_id :: "counter option"
  co_request_count_team_id :: "counter option"
  co_request_count_end_user_id :: "counter option"

definition get_all_cache_objects ::
  "bool \<Rightarrow> string option \<Rightarrow> string option \<Rightarrow> string option \<Rightarrow> string option \<Rightarrow> cache_store
   \<Rightarrow> cache_object" where
  "get_all_cache_objects current_global_requests request_count_api_key request_count_user_id
       request_count_team_id request_count_end_user_id c =
     \<lparr>co_current_global_requests =
        (if current_global_requests then async_get_cache_global c else None),
      co_request_count_api_key =
        (case request_count_api_key of None \<Rightarrow> None | Some k \<Rightarrow> async_get_cache k c),
      co_request_count_user_id =
        (case request_count_user_id of None \<Rightarrow> None | Some k \<Rightarrow> async_get_cache k c),
      co_request_count_team_id =
        (case request_count_team_id of None \<Rightarrow> None | Some k \<Rightarrow> async_get_cache k c),
      co_request_count_end_user_id =
        (case request_count_end_user_id of None \<Rightarrow> None | Some k \<Rightarrow> async_get_cache k c)\<rparr>"

text \<open>
  The local variables of \<^verbatim>\<open>async_pre_call_hook\<close> that its blocks share: the list of
  pending writes, \<^verbatim>\<open>new_val\<close>, and the remaining-limit entries put into
  \<^verbatim>\<open>data["metadata"]\<close>.
\<close>

record hook_locals =
  values_to_update_in_cache :: cache_list
  new_val :: "counter option"
  remaining_limits_data :: "(string \<times> int option) list"

text \<open>
  The global in-flight check (the block under
  \<^verbatim>\<open>if global_max_parallel_requests is not None\<close>): the only block that writes to the
  cache before the hook returns.
\<close>

definition global_limit_check ::
  "datetime \<Rightarrow> request_data \<Rightarrow> cache_store \<Rightarrow> http_exception + cache_store" where
  "global_limit_check now data c =
     (case global_max_parallel_requests data of
        None \<Rightarrow> Inr c
      | Some limit \<Rightarrow>
          (let current_global_requests =
                 (case async_get_cache_global c of None \<Rightarrow> 1 | Some n \<Rightarrow> n)
           in if current_global_requests \<ge> limit
              then raise_rate_limit_error now
                     (Some (''Hit Global Limit: Limit='' @ str_int limit
                        @ '', current: '' @ str_int current_global_requests))
              else Inr (async_increment_cache 1 c)))"

text \<open>
  The api-key block. \<open>vk\<close> is the constant
  \<^verbatim>\<open>RATE_LIMIT_ERROR_MESSAGE_FOR_VIRTUAL_KEY\<close> of \<^verbatim>\<open>litellm.constants\<close>, which is not among
  the sources and is taken as a parameter.
\<close>

definition api_key_check ::
  "string \<Rightarrow> datetime \<Rightarrow> string \<Rightarrow> user_api_key_auth \<Rightarrow> cache_object \<Rightarrow> hook_locals
   \<Rightarrow> http_exception + hook_locals" where
  "api_key_check vk now precise_minute user_api_key_dict cache_objects st =
     (case api_key user_api_key_dict of
        None \<Rightarrow> Inr st
      | Some key \<Rightarrow>
          (let max_parallel = or_maxsize (max_parallel_requests user_api_key_dict);
               tpm = or_maxsize (tpm_limit user_api_key_dict);
               rpm = or_maxsize (rpm_limit user_api_key_dict);
               request_count_api_key = request_count_key key precise_minute;
               current = co_request_count_api_key cache_objects
           in if max_parallel = sys_maxsize \<and> tpm = sys_maxsize \<and> rpm = sys_maxsize then Inr st
              else if max_parallel = 0 \<or> tpm = 0 \<or> rpm = 0 then
                raise_rate_limit_error now
                  (Some (''Hit limit for '' @ vk @ '': '' @ key
                     @ ''. max_parallel_requests: '' @ str_int max_parallel
                     @ '', tpm_limit: '' @ str_int tpm @ '', rpm_limit: '' @ str_int rpm))
              else (case current of
                 None \<Rightarrow>
                   Inr (st\<lparr>values_to_update_in_cache :=
                              values_to_update_in_cache st @ [(request_count_api_key, fresh_counter)],
                            new_val := Some fresh_counter\<rparr>)
               | Some cur \<Rightarrow>
                   if current_requests cur < max_parallel \<and> current_tpm cur < tpm
                      \<and> current_rpm cur < rpm
                   then Inr (st\<lparr>values_to_update_in_cache :=
                                   values_to_update_in_cache st @ [(request_count_api_key, reserved cur)],
                                 new_val := Some (reserved cur)\<rparr>)
                   else raise_rate_limit_error now
                          (Some (''Hit limit for '' @ vk @ '': '' @ key
                             @ ''. tpm_limit: '' @ str_int tpm
                             @ '', current_tpm '' @ str_int (current_tpm cur)
                             @ '' , rpm_limit: '' @ str_int rpm
                             @ '' current rpm '' @ str_int (current_rpm cur) @ '' ''))))) "

text \<open>
  The per-model block: the limit of the requested model in a mapping, \<^verbatim>\<open>None\<close> when the
  request names no model, the mapping is \<^verbatim>\<open>None\<close> or empty, or the model has no entry.
\<close>

definition limit_for_model :: "string option \<Rightarrow> (string \<times> int) list option \<Rightarrow> int option" where
  "limit_for_model m limits =
     (case m of
        None \<Rightarrow> None
      | Some name \<Rightarrow>
          (case limits of
             None \<Rightarrow> None
           | Some d \<Rightarrow> if d \<noteq> [] then map_of d name else None))"

text \<open>
  \<open>reached limit v\<close> is the test \<^verbatim>\<open>limit is not None and v >= limit\<close>, and
  \<open>str_int_opt\<close> the rendering of an optional integer in an f-string.
\<close>

definition reached :: "int option \<Rightarrow> int \<Rightarrow> bool" where
  "reached limit v = (case limit of None \<Rightarrow> False | Some l \<Rightarrow> v \<ge> l)"

definition str_int_opt :: "int option \<Rightarrow> string" where
  "str_int_opt i = (case i of None \<Rightarrow> ''None'' | Some v \<Rightarrow> str_int v)"

definition remaining_limits ::
  "string option \<Rightarrow> int option \<Rightarrow> int option \<Rightarrow> counter option \<Rightarrow> (string \<times> int option) list" where
  "remaining_limits m tpm_limit_for_model rpm_limit_for_model nv =
     (let remaining_tokens =
            (case nv of None \<Rightarrow> None
             | Some v \<Rightarrow> map_option (\<lambda>l. l - current_tpm v) tpm_limit_for_model);
          remaining_requests =
            (case nv of None \<Rightarrow> None
             | Some v \<Rightarrow> map_option (\<lambda>l. l - current_rpm v) rpm_limit_for_model)
      in [(''litellm-key-remaining-tokens-'' @ str_opt m, remaining_tokens),
          (''litellm-key-remaining-requests-'' @ str_opt m, remaining_requests)])"

definition model_check ::
  "string \<Rightarrow> datetime \<Rightarrow> string \<Rightarrow> user_api_key_auth \<Rightarrow> request_data \<Rightarrow> cache_store
   \<Rightarrow> hook_locals \<Rightarrow> http_exception + hook_locals" where
  "model_check vk now precise_minute user_api_key_dict data c st =
     (if get_key_model_tpm_limit user_api_key_dict \<noteq> None
         \<or> get_key_model_rpm_limit user_api_key_dict \<noteq> None
      then
        (let request_count_api_key =
               model_request_count_key (api_key user_api_key_dict) (model data) precise_minute;
             current = async_get_cache request_count_api_key c;
             tpm_limit_for_model =
               limit_for_model (model data) (get_key_model_tpm_limit user_api_key_dict);
             rpm_limit_for_model =
               limit_for_model (model data) (get_key_model_rpm_limit user_api_key_dict);
             annotate = (\<lambda>s. s\<lparr>remaining_limits_data :=
                remaining_limits (model data) tpm_limit_for_model rpm_limit_for_model (new_val s)\<rparr>)
         in case current of
              None \<Rightarrow>
                Inr (annotate (st\<lparr>values_to_update_in_cache :=
                                     values_to_update_in_cache st @ [(request_count_api_key, fresh_counter)],
                                   new_val := Some fresh_counter\<rparr>))
            | Some cur \<Rightarrow>
                if tpm_limit_for_model \<noteq> None \<or> rpm_limit_for_model \<noteq> None then
                  (if reached tpm_limit_for_model (current_tpm cur)
                   then raise_rate_limit_error now
                          (Some (''Hit TPM limit for model: '' @ str_opt (model data) @ '' on '' @ vk
                             @ '': '' @ str_opt (api_key user_api_key_dict)
                             @ ''. tpm_limit: '' @ str_int_opt tpm_limit_for_model
                             @ '', current_tpm '' @ str_int (current_tpm cur) @ '' ''))
                   else if reached rpm_limit_for_model (current_rpm cur)
                   then raise_rate_limit_error now
                          (Some (''Hit RPM limit for model: '' @ str_opt (model data) @ '' on '' @ vk
                             @ '': '' @ str_opt (api_key user_api_key_dict)
                             @ ''. rpm_limit: '' @ str_int_opt rpm_limit_for_model
                             @ '', current_rpm '' @ str_int (current_rpm cur) @ '' ''))
                   else Inr (annotate (st\<lparr>values_to_update_in_cache :=
                                          values_to_update_in_cache st @ [(request_count_api_key, reserved cur)],
                                        new_val := Some (reserved cur)\<rparr>)))
                else Inr (annotate st))
      else Inr st)"

text \<open>
  The user, team and end-user blocks: each calls \<^verbatim>\<open>check_key_in_limits\<close> with
  \<^verbatim>\<open>max_parallel_requests=sys.maxsize\<close>. The end-user block is guarded by the truth value
  of \<^verbatim>\<open>end_user_id\<close>: an empty string skips it.
\<close>

definition user_check ::
  "datetime \<Rightarrow> string \<Rightarrow> user_api_key_auth \<Rightarrow> cache_object \<Rightarrow> hook_locals
   \<Rightarrow> http_exception + hook_locals" where
  "user_check now precise_minute user_api_key_dict cache_objects st =
     (case user_id user_api_key_dict of
        None \<Rightarrow> Inr st
      | Some uid \<Rightarrow>
          (case check_key_in_limits now sys_maxsize
                  (or_maxsize (user_tpm_limit user_api_key_dict))
                  (or_maxsize (user_rpm_limit user_api_key_dict))
                  (co_request_count_user_id cache_objects)
                  (request_count_key uid precise_minute) ''user''
                  (values_to_update_in_cache st) of
             Inl e \<Rightarrow> Inl e
           | Inr vs \<Rightarrow> Inr (st\<lparr>values_to_update_in_cache := vs\<rparr>)))"

definition team_check ::
  "datetime \<Rightarrow> string \<Rightarrow> user_api_key_auth \<Rightarrow> cache_object \<Rightarrow> hook_locals
   \<Rightarrow> http_exception + hook_locals" where
  "team_check now precise_minute user_api_key_dict cache_objects st =
     (case team_id user_api_key_dict of
        None \<Rightarrow> Inr st
      | Some tid \<Rightarrow>
          (case check_key_in_limits now sys_maxsize
                  (or_maxsize (team_tpm_limit user_api_key_dict))
                  (or_maxsize (team_rpm_limit user_api_key_dict))
                  (co_request_count_team_id cache_objects)
                  (request_count_key tid precise_minute) ''team''
                  (values_to_update_in_cache st) of
             Inl e \<Rightarrow> Inl e
           | Inr vs \<Rightarrow> Inr (st\<lparr>values_to_update_in_cache := vs\<rparr>)))"

definition truthy :: "string option \<Rightarrow> bool" where
  "truthy s = (case s of None \<Rightarrow> False | Some t \<Rightarrow> t \<noteq> [])"

definition end_user_check ::
  "datetime \<Rightarrow> string \<Rightarrow> user_api_key_auth \<Rightarrow> cache_object \<Rightarrow> hook_locals
   \<Rightarrow> http_exception + hook_locals" where
  "end_user_check now precise_minute user_api_key_dict cache_objects st =
     (if truthy (end_user_id user_api_key_dict) then
        (case check_key_in_limits now sys_maxsize
                (or_maxsize (end_user_tpm_limit user_api_key_dict))
                (or_maxsize (end_user_rpm_limit user_api_key_dict))
                (co_request_count_end_user_id cache_objects)
                (request_count_key (str_opt (end_user_id user_api_key_dict)) precise_minute)
                ''customer''
                (values_to_update_in_cache st) of
           Inl e \<Rightarrow> Inl e
         | Inr vs \<Rightarrow> Inr (st\<lparr>values_to_update_in_cache := vs\<rparr>))
      else Inr st)"

text \<open>
  The blocks after the global check, in the order of the source: the batch read, then the
  api-key, per-model, user, team and end-user blocks; the first rejection ends the hook.
\<close>

definition scope_checks ::
  "string \<Rightarrow> datetime \<Rightarrow> string \<Rightarrow> user_api_key_auth \<Rightarrow> request_data \<Rightarrow> cache_store
   \<Rightarrow> http_exception + hook_locals" where
  "scope_checks vk now precise_minute user_api_key_dict data c =
     (let cache_objects =
            get_all_cache_objects (global_max_parallel_requests data \<noteq> None)
              (map_option (\<lambda>k. request_count_key k precise_minute) (api_key user_api_key_dict))
              (map_option (\<lambda>k. request_count_key k precise_minute) (user_id user_api_key_dict))
              (map_option (\<lambda>k. request_count_key k precise_minute) (team_id user_api_key_dict))
              (map_option (\<lambda>k. request_count_key k precise_minute) (end_user_id user_api_key_dict))
              c;
          st0 = \<lparr>values_to_update_in_cache = [], new_val = None, remaining_limits_data = []\<rparr>
      in case api_key_check vk now precise_minute user_api_key_dict cache_objects st0 of
           Inl e \<Rightarrow> Inl e
         | Inr st1 \<Rightarrow>
        (case model_check vk now precise_minute user_api_key_dict data c st1 of
           Inl e \<Rightarrow> Inl e
         | Inr st2 \<Rightarrow>
        (case user_check now precise_minute user_api_key_dict cache_objects st2 of
           Inl e \<Rightarrow> Inl e
         | Inr st3 \<Rightarrow>
        (case team_check now precise_minute user_api_key_dict cache_objects st3 of
           Inl e \<Rightarrow> Inl e
         | Inr st4 \<Rightarrow> end_user_check now precise_minute user_api_key_dict cache_objects st4))))"

text \<open>
  The entries \<^verbatim>\<open>data["metadata"].update(_remaining_limits_data)\<close> has written when the
  blocks after the global check end, by a return or by a raise: the update is the last
  statement of the per-model block, so it has run exactly when the api-key block and the
  per-model block have both passed, also when the user, team or end-user block raises
  afterwards.
\<close>

definition metadata_written ::
  "string \<Rightarrow> datetime \<Rightarrow> string \<Rightarrow> user_api_key_auth \<Rightarrow> request_data \<Rightarrow> cache_store
   \<Rightarrow> (string \<times> int option) list" where
  "metadata_written vk now precise_minute user_api_key_dict data c =
     (let cache_objects =
            get_all_cache_objects (global_max_parallel_requests data \<noteq> None)
              (map_option (\<lambda>k. request_count_key k precise_minute) (api_key user_api_key_dict))
              (map_option (\<lambda>k. request_count_key k precise_minute) (user_id user_api_key_dict))
              (map_option (\<lambda>k. request_count_key k precise_minute) (team_id user_api_key_dict))
              (map_option (\<lambda>k. request_count_key k precise_minute) (end_user_id user_api_key_dict))
              c;
          st0 = \<lparr>values_to_update_in_cache = [], new_val = None, remaining_limits_data = []\<rparr>
      in case api_key_check vk now precise_minute user_api_key_dict cache_objects st0 of
           Inl e \<Rightarrow> []
         | Inr st1 \<Rightarrow>
        (case model_check vk now precise_minute user_api_key_dict data c st1 of
           Inl e \<Rightarrow> []
         | Inr st2 \<Rightarrow> remaining_limits_data st2))"

text \<open>
  What a call of \<^verbatim>\<open>async_pre_call_hook\<close> leaves behind: the exception it raised or its
  normal return, the cache when it returns or raises, the unawaited task
  \<^verbatim>\<open>async_batch_set_cache(cache_list, ttl)\<close> it created (if any), and the entries it has
  put into the request metadata when it returns or raises.
\<close>

record pre_call_result =
  outcome :: "http_exception + unit"
  cache_after :: cache_store
  batch_set_task :: "(cache_list \<times> nat) option"
  metadata_update :: "(string \<times> int option) list"

definition async_pre_call_hook ::
  "string \<Rightarrow> datetime \<Rightarrow> string \<Rightarrow> user_api_key_auth \<Rightarrow> request_data \<Rightarrow> cache_store
   \<Rightarrow> pre_call_result" where
  "async_pre_call_hook vk now precise_minute user_api_key_dict data c =
     (case global_limit_check now data c of
        Inl e \<Rightarrow>
          \<lparr>outcome = Inl e, cache_after = c, batch_set_task = None, metadata_update = []\<rparr>
      | Inr c1 \<Rightarrow>
          (case scope_checks vk now precise_minute user_api_key_dict data c1 of
             Inl e \<Rightarrow>
               \<lparr>outcome = Inl e, cache_after = c1, batch_set_task = None,
                metadata_update = metadata_written vk now precise_minute user_api_key_dict data c1\<rparr>
           | Inr st \<Rightarrow>
               \<lparr>outcome = Inr (), cache_after = c1,
                batch_set_task = Some (values_to_update_in_cache st, 60),
                metadata_update = remaining_limits_data st\<rparr>))"

text \<open>The task, when the event loop runs it.\<close>

definition run_batch_set_task :: "cache_list \<times> nat \<Rightarrow> cache_store \<Rightarrow> cache_store" where
  "run_batch_set_task task c = async_batch_set_cache (fst task) (snd task) c"

subsection \<open>Reconciliation\<close>

text \<open>
  The \<^verbatim>\<open>kwargs\<close> of the logging hooks. \<open>kw_metadata\<close> is
  \<^verbatim>\<open>kwargs["litellm_params"]["metadata"]\<close>, \<^verbatim>\<open>None\<close> when the entry is missing or null;
  \<open>md_user_api_key\<close> tells a missing entry from a null one, since the success hook
  indexes it and the failure hook reads it with \<^verbatim>\<open>get\<close>. \<open>kw_user\<close> is
  \<^verbatim>\<open>kwargs.get("user")\<close>, \<open>kw_exception\<close> is \<^verbatim>\<open>str(kwargs["exception"])\<close>, and
  \<open>kw_model_group\<close> is what \<^verbatim>\<open>get_model_group_from_litellm_kwargs(kwargs)\<close> returns (the
  helper is not among the sources). The two flags of the metadata say whether
  \<^verbatim>\<open>"model_rpm_limit"\<close> and \<^verbatim>\<open>"model_tpm_limit"\<close> are keys of
  \<^verbatim>\<open>user_api_key_metadata\<close>, the third whether \<^verbatim>\<open>user_api_key_model_max_budget\<close> is not
  \<^verbatim>\<open>None\<close>.
\<close>

datatype key_entry = KeyMissing | KeyNull | KeyValue string

record log_metadata =
  md_global_max_parallel_requests :: "int option"
  md_user_api_key :: key_entry
  md_user_api_key_user_id :: "string option"
  md_user_api_key_team_id :: "string option"
  md_has_model_max_budget :: bool
  md_has_model_rpm_limit :: bool
  md_has_model_tpm_limit :: bool

record log_kwargs =
  kw_metadata :: "log_metadata option"
  kw_user :: "string option"
  kw_model_group :: "string option"
  kw_exception :: string

datatype response_obj = ModelResponse (usage_total_tokens: int) | OtherResponse

definition total_tokens_of :: "response_obj \<Rightarrow> int" where
  "total_tokens_of response = (case response of ModelResponse t \<Rightarrow> t | OtherResponse \<Rightarrow> 0)"

definition key_of :: "key_entry \<Rightarrow> string option" where
  "key_of e = (case e of KeyValue k \<Rightarrow> Some k | _ \<Rightarrow> None)"

text \<open>\<^verbatim>\<open>cached or default\<close>: a stored triple is a non-empty dictionary, hence true.\<close>

definition or_default :: "counter option \<Rightarrow> counter \<Rightarrow> counter" where
  "or_default cached dflt = (case cached of None \<Rightarrow> dflt | Some cur \<Rightarrow> cur)"

text \<open>The \<^verbatim>\<open>new_val\<close> of the success hook, written five times in the source.\<close>

definition success_new_val :: "counter \<Rightarrow> int \<Rightarrow> counter" where
  "success_new_val current total_tokens =
     \<lparr>current_requests = max (current_requests current - 1) 0,
      current_tpm = current_tpm current + total_tokens,
      current_rpm = current_rpm current + 1\<rparr>"

text \<open>The \<^verbatim>\<open>new_val\<close> of the failure hook.\<close>

definition failure_new_val :: "counter \<Rightarrow> counter" where
  "failure_new_val current =
     \<lparr>current_requests = max (current_requests current - 1) 0,
      current_tpm = current_tpm current,
      current_rpm = current_rpm current\<rparr>"

text \<open>
  The pending writes of the success hook, scope by scope. Every read is made before the
  one batch write at the end, so all reads see the cache \<open>c\<close> the hook started from
  (after its decrement of the global counter).
\<close>

definition success_api_key_writes :: "string \<Rightarrow> string option \<Rightarrow> int \<Rightarrow> cache_store \<Rightarrow> cache_list" where
  "success_api_key_writes precise_minute user_api_key total_tokens c =
     (case user_api_key of
        None \<Rightarrow> []
      | Some k \<Rightarrow>
          (let request_count_api_key = request_count_key k precise_minute;
               current = or_default (async_get_cache request_count_api_key c)
                           \<lparr>current_requests = 1, current_tpm = 0, current_rpm = 0\<rparr>
           in [(request_count_api_key, success_new_val current total_tokens)]))"

definition success_model_group_writes ::
  "string \<Rightarrow> string option \<Rightarrow> string option \<Rightarrow> log_metadata \<Rightarrow> int \<Rightarrow> cache_store \<Rightarrow> cache_list" where
  "success_model_group_writes precise_minute user_api_key model_group md total_tokens c =
     (if user_api_key \<noteq> None \<and> model_group \<noteq> None
         \<and> (md_has_model_rpm_limit md \<or> md_has_model_tpm_limit md \<or> md_has_model_max_budget md)
      then
        (let request_count_api_key =
               model_request_count_key user_api_key model_group precise_minute;
             current = or_default (async_get_cache request_count_api_key c)
                         \<lparr>current_requests = 1, current_tpm = 0, current_rpm = 0\<rparr>
         in [(request_count_api_key, success_new_val current total_tokens)])
      else [])"

definition success_id_writes :: "string \<Rightarrow> string option \<Rightarrow> int \<Rightarrow> cache_store \<Rightarrow> cache_list" where
  "success_id_writes precise_minute ident total_tokens c =
     (case ident of
        None \<Rightarrow> []
      | Some i \<Rightarrow>
          (let request_count_api_key = request_count_key i precise_minute;
               current = or_default (async_get_cache request_count_api_key c)
                           \<lparr>current_requests = 1, current_tpm = total_tokens, current_rpm = 1\<rparr>
           in [(request_count_api_key, success_new_val current total_tokens)]))"

text \<open>
  \<^verbatim>\<open>async_log_success_event\<close>. An exception inside its \<^verbatim>\<open>try\<close> is printed and swallowed:
  a missing metadata, or a missing \<^verbatim>\<open>user_api_key\<close> entry, raises before anything is
  written, and the hook returns with the cache as it was.
\<close>

definition async_log_success_event ::
  "string \<Rightarrow> log_kwargs \<Rightarrow> response_obj \<Rightarrow> cache_store \<Rightarrow> cache_store" where
  "async_log_success_event precise_minute kwargs response c =
     (case kw_metadata kwargs of
        None \<Rightarrow> c
      | Some md \<Rightarrow>
          if md_user_api_key md = KeyMissing then c
          else
            (let user_api_key = key_of (md_user_api_key md);
                 c1 = (if md_global_max_parallel_requests md \<noteq> None
                       then async_increment_cache (- 1) c else c);
                 total_tokens = total_tokens_of response;
                 values_to_update =
                   success_api_key_writes precise_minute user_api_key total_tokens c1
                   @ success_model_group_writes precise_minute user_api_key (kw_model_group kwargs)
                       md total_tokens c1
                   @ success_id_writes precise_minute (md_user_api_key_user_id md) total_tokens c1
                   @ success_id_writes precise_minute (md_user_api_key_team_id md) total_tokens c1
                   @ success_id_writes precise_minute (kw_user kwargs) total_tokens c1
             in async_batch_set_cache values_to_update 60 c1))"

text \<open>
  \<^verbatim>\<open>async_log_failure_event\<close>. Its metadata is
  \<^verbatim>\<open>kwargs["litellm_params"].get("metadata", {}) or {}\<close>, read with \<^verbatim>\<open>get\<close>: a missing
  or null metadata, and a missing or null entry, all read as \<^verbatim>\<open>None\<close>.
\<close>

definition failure_global_max_parallel_requests :: "log_kwargs \<Rightarrow> int option" where
  "failure_global_max_parallel_requests kwargs =
     (case kw_metadata kwargs of None \<Rightarrow> None | Some md \<Rightarrow> md_global_max_parallel_requests md)"

definition failure_user_api_key :: "log_kwargs \<Rightarrow> string option" where
  "failure_user_api_key kwargs =
     (case kw_metadata kwargs of None \<Rightarrow> None | Some md \<Rightarrow> key_of (md_user_api_key md))"

definition async_log_failure_event :: "string \<Rightarrow> log_kwargs \<Rightarrow> cache_store \<Rightarrow> cache_store" where
  "async_log_failure_event precise_minute kwargs c =
     (case failure_user_api_key kwargs of
        None \<Rightarrow> c
      | Some k \<Rightarrow>
          if contains_str ''Max parallel request limit reached'' (kw_exception kwargs) then c
          else
            (let c1 = (if failure_global_max_parallel_requests kwargs \<noteq> None
                       then async_increment_cache (- 1) c else c);
                 request_count_api_key = request_count_key k precise_minute;
                 current = or_default (async_get_cache request_count_api_key c1)
                             \<lparr>current_requests = 1, current_tpm = 0, current_rpm = 0\<rparr>
             in async_set_cache request_count_api_key (failure_new_val current) 60 c1))"

subsection \<open>The gate as a state machine\<close>

text \<open>
  The cache together with the batch-write tasks that admissions have created and the
  event loop has not run yet. An operation is a call of one of the three hooks, the run
  of a pending task, or the expiry of a bucket.
\<close>

record gate_state =
  store :: cache_store
  tasks :: "(cache_list \<times> nat) list"

datatype gate_op =
    PreCall string datetime string user_api_key_auth request_data
  | RunTask nat
  | LogSuccess string log_kwargs response_obj
  | LogFailure string log_kwargs
  | Expire string

fun gate_step :: "gate_state \<Rightarrow> gate_op \<Rightarrow> gate_state" where
  "gate_step s (PreCall vk now precise_minute user_api_key_dict data) =
     (let r = async_pre_call_hook vk now precise_minute user_api_key_dict data (store s)
      in \<lparr>store = cache_after r,
          tasks = (case batch_set_task r of None \<Rightarrow> tasks s | Some t \<Rightarrow> tasks s @ [t])\<rparr>)"
| "gate_step s (RunTask i) =
     (if i < length (tasks s)
      then \<lparr>store = run_batch_set_task (tasks s ! i) (store s),
            tasks = take i (tasks s) @ drop (Suc i) (tasks s)\<rparr>
      else s)"
| "gate_step s (LogSuccess precise_minute kwargs response) =
     s\<lparr>store := async_log_success_event precise_minute kwargs response (store s)\<rparr>"
| "gate_step s (LogFailure precise_minute kwargs) =
     s\<lparr>store := async_log_failure_event precise_minute kwargs (store s)\<rparr>"
| "gate_step s (Expire key) = s\<lparr>store := expire key (store s)\<rparr>"

definition gate_run :: "gate_state \<Rightarrow> gate_op list \<Rightarrow> gate_state" where
  "gate_run s ops = foldl gate_step s ops"

text \<open>The reported \<^verbatim>\<open>total_tokens\<close> of an operation is not negative.\<close>

fun tokens_nonneg :: "gate_op \<Rightarrow> bool" where
  "tokens_nonneg (LogSuccess precise_minute kwargs response) = (0 \<le> total_tokens_of response)"
| "tokens_nonneg other = True"

text \<open>The invariant: every stored triple, and every triple of a pending write, is non-negative.\<close>

definition counter_nonneg :: "counter \<Rightarrow> bool" where
  "counter_nonneg v = (0 \<le> current_requests v \<and> 0 \<le> current_tpm v \<and> 0 \<le> current_rpm v)"

definition cache_nonneg :: "cache_store \<Rightarrow> bool" where
  "cache_nonneg c = (\<forall>k v ttl. buckets c k = Some (v, ttl) \<longrightarrow> counter_nonneg v)"

definition writes_nonneg :: "cache_list \<Rightarrow> bool" where
  "writes_nonneg ws = list_all (\<lambda>kv. counter_nonneg (snd kv)) ws"

definition gate_nonneg :: "gate_state \<Rightarrow> bool" where
  "gate_nonneg s = (cache_nonneg (store s) \<and> list_all (\<lambda>t. writes_nonneg (fst t)) (tasks s))"

definition empty_gate :: gate_state where
  "empty_gate = \<lparr>store = empty_cache, tasks = []\<rparr>"

text \<open>The triples of a batch read are non-negative.\<close>

definition snapshot_nonneg :: "cache_object \<Rightarrow> bool" where
  "snapshot_nonneg co = (
     (\<forall>cur. co_request_count_api_key co = Some cur \<longrightarrow> counter_nonneg cur) \<and>
     (\<forall>cur. co_request_count_user_id co = Some cur \<longrightarrow> counter_nonneg cur) \<and>
     (\<forall>cur. co_request_count_team_id co = Some cur \<longrightarrow> counter_nonneg cur) \<and>
     (\<forall>cur. co_request_count_end_user_id co = Some cur \<longrightarrow> counter_nonneg cur))"

text \<open>
  A principal has a zero limit on one of the scopes the check-and-reserve rule evaluates:
  the api-key block (when \<^verbatim>\<open>api_key\<close> is not \<^verbatim>\<open>None\<close>), and the user, team and end-user
  blocks (when their identifier is present).
\<close>

definition has_zero_limit :: "user_api_key_auth \<Rightarrow> bool" where
  "has_zero_limit p =
     ((api_key p \<noteq> None
         \<and> (max_parallel_requests p = Some 0 \<or> tpm_limit p = Some 0 \<or> rpm_limit p = Some 0))
      \<or> (user_id p \<noteq> None \<and> (user_tpm_limit p = Some 0 \<or> user_rpm_limit p = Some 0))
      \<or> (team_id p \<noteq> None \<and> (team_tpm_limit p = Some 0 \<or> team_rpm_limit p = Some 0))
      \<or> (truthy (end_user_id p)
           \<and> (end_user_tpm_limit p = Some 0 \<or> end_user_rpm_limit p = Some 0)))"

subsection \<open>Sample inputs\<close>

text \<open>
  Inputs for the concrete runs below: a principal with no identity and no limit, a request
  with no model and no global cap, a logging metadata with no entry set, a clock reading
  (2024-05-17 13:42:07.250000) and its minute bucket.
\<close>

definition no_auth :: user_api_key_auth where
  "no_auth = \<lparr>api_key = None, user_id = None, team_id = None, end_user_id = None,
              max_parallel_requests = None, tpm_limit = None, rpm_limit = None,
              user_tpm_limit = None, user_rpm_limit = None,
              team_tpm_limit = None, team_rpm_limit = None,
              end_user_tpm_limit = None, end_user_rpm_limit = None,
              model_tpm_limit = None, model_rpm_limit = None\<rparr>"

definition no_data :: request_data where
  "no_data = \<lparr>model = None, global_max_parallel_requests = None\<rparr>"

definition no_metadata :: log_metadata where
  "no_metadata = \<lparr>md_global_max_parallel_requests = None, md_user_api_key = KeyNull,
                  md_user_api_key_user_id = None, md_user_api_key_team_id = None,
                  md_has_model_max_budget = False, md_has_model_rpm_limit = False,
                  md_has_model_tpm_limit = False\<rparr>"

definition kwargs_of :: "log_metadata \<Rightarrow> string \<Rightarrow> log_kwargs" where
  "kwargs_of md exc = \<lparr>kw_metadata = Some md, kw_user = None, kw_model_group = None,
                        kw_exception = exc\<rparr>"

definition sample_now :: datetime where
  "sample_now = Datetime 63851550127250000"

definition sample_minute :: string where
  "sample_minute = ''2024-05-17-13-42''"

definition sample_ops :: "gate_op list" where
  "sample_ops =
     [PreCall ''key'' sample_now sample_minute
        (no_auth\<lparr>api_key := Some ''sk-1'', rpm_limit := Some 10, user_id := Some ''u1''\<rparr>) no_data,
      RunTask 0,
      LogSuccess sample_minute
        (kwargs_of (no_metadata\<lparr>md_user_api_key := KeyValue ''sk-1'',
                                 md_user_api_key_user_id := Some ''u1''\<rparr>) [])
        (ModelResponse 137),
      LogFailure sample_minute
        (kwargs_of (no_metadata\<lparr>md_user_api_key := KeyValue ''sk-1''\<rparr>) ''connection reset'')]"

text \<open>
  The per-model scenario: a key whose \<^verbatim>\<open>model_rpm_limit\<close> maps \<^verbatim>\<open>gpt-4\<close> to 1; the cache
  after a first admission for \<^verbatim>\<open>gpt-4\<close> and the run of its batch write; and the cache
  after the success hook of that request (reporting \<open>t\<close> tokens) has run as well.
\<close>

definition gpt4_auth :: user_api_key_auth where
  "gpt4_auth = no_auth\<lparr>api_key := Some ''sk-1'', model_rpm_limit := Some [(''gpt-4'', 1)]\<rparr>"

definition after_first_admit :: "string \<Rightarrow> datetime \<Rightarrow> cache_store" where
  "after_first_admit vk now =
     store (gate_run empty_gate
       [PreCall vk now sample_minute gpt4_auth (no_data\<lparr>model := Some ''gpt-4''\<rparr>), RunTask 0])"

definition after_first_success :: "string \<Rightarrow> datetime \<Rightarrow> int \<Rightarrow> cache_store" where
  "after_first_success vk now t =
     store (gate_run empty_gate
       [PreCall vk now sample_minute gpt4_auth (no_data\<lparr>model := Some ''gpt-4''\<rparr>), RunTask 0,
        LogSuccess sample_minute
          ((kwargs_of (no_metadata\<lparr>md_user_api_key := KeyValue ''sk-1'',
                                   md_has_model_rpm_limit := True\<rparr>) [])
             \<lparr>kw_model_group := Some ''gpt-4''\<rparr>)
          (ModelResponse t)])"

text \<open>
  Failure hooks: the \<^verbatim>\<open>kwargs\<close> of a request that set a global cap of 5 and failed with
  "connection reset", without and with a \<^verbatim>\<open>user_api_key\<close>; and a cache with one request
  in flight globally and busy buckets for the key and a user.
\<close>

definition keyless_failure :: log_kwargs where
  "keyless_failure =
     kwargs_of (no_metadata\<lparr>md_global_max_parallel_requests := Some 5\<rparr>) ''connection reset''"

definition keyed_failure :: log_kwargs where
  "keyed_failure =
     kwargs_of (no_metadata\<lparr>md_global_max_parallel_requests := Some 5,
                             md_user_api_key := KeyValue ''sk-1''\<rparr>) ''connection reset''"

definition busy_cache :: cache_store where
  "busy_cache =
     \<lparr>global_requests = Some 1,
      buckets = (\<lambda>k. None)(''sk-1::2024-05-17-13-42::request_count'' \<mapsto>
                   (\<lparr>current_requests = 2, current_tpm = 10, current_rpm = 3\<rparr>, 60),
                 ''u1::2024-05-17-13-42::request_count'' \<mapsto>
                   (\<lparr>current_requests = 2, current_tpm = 10, current_rpm = 3\<rparr>, 60))\<rparr>"

text \<open>A key with an rpm limit of 10 whose user has an rpm limit of 0.\<close>

definition zero_user_auth :: user_api_key_auth where
  "zero_user_auth = no_auth\<lparr>api_key := Some ''sk-1'', rpm_limit := Some 10,
                             user_id := Some ''u1'', user_rpm_limit := Some 0\<rparr>"

section \<open>Properties\<close>

subsection \<open>Substrings\<close>

lemma starts_with_iff: "starts_with sub s \<longleftrightarrow> (\<exists>q. s = sub @ q)"
  by (induction sub s rule: starts_with.induct) auto

lemma contains_str_iff: "contains_str sub s \<longleftrightarrow> (\<exists>p q. s = p @ sub @ q)"
proof (induction s)
  case Nil
  then show ?case by auto
next
  case (Cons c cs)
  show ?case
  proof
    assume "contains_str sub (c # cs)"
    then consider "starts_with sub (c # cs)" | "contains_str sub cs" by auto
    then show "\<exists>p q. c # cs = p @ sub @ q"
    proof cases
      case 1
      then obtain q where "c # cs = sub @ q" by (auto simp: starts_with_iff)
      then have "c # cs = [] @ sub @ q" by simp
      then show ?thesis by blast
    next
      case 2
      then obtain p q where "cs = p @ sub @ q" using Cons.IH by blast
      then have "c # cs = (c # p) @ sub @ q" by simp
      then show ?thesis by blast
    qed
  next
    assume "\<exists>p q. c # cs = p @ sub @ q"
    then obtain p q where e: "c # cs = p @ sub @ q" by blast
    show "contains_str sub (c # cs)"
    proof (cases p)
      case Nil
      with e have "starts_with sub (c # cs)" by (auto simp: starts_with_iff)
      then show ?thesis by simp
    next
      case (Cons a p')
      with e have "cs = p' @ sub @ q" by simp
      then have "contains_str sub cs" using Cons.IH by blast
      then show ?thesis by simp
    qed
  qed
qed

lemma contains_strI: "s = p @ sub @ q \<Longrightarrow> contains_str sub s"
  by (auto simp: contains_str_iff)

subsection \<open>Retry-after\<close>





subsection \<open>Counters stay non-negative\<close>

lemma fresh_counter_nonneg: "counter_nonneg fresh_counter"
  by (simp add: counter_nonneg_def fresh_counter_def)

lemma reserved_nonneg: "counter_nonneg cur \<Longrightarrow> counter_nonneg (reserved cur)"
  by (simp add: counter_nonneg_def reserved_def)

lemma success_new_val_nonneg:
  "counter_nonneg cur \<Longrightarrow> 0 \<le> t \<Longrightarrow> counter_nonneg (success_new_val cur t)"
  by (simp add: counter_nonneg_def success_new_val_def)

lemma failure_new_val_nonneg: "counter_nonneg cur \<Longrightarrow> counter_nonneg (failure_new_val cur)"
  by (simp add: counter_nonneg_def failure_new_val_def)

lemma get_cache_nonneg:
  "cache_nonneg c \<Longrightarrow> async_get_cache k c = Some cur \<Longrightarrow> counter_nonneg cur"
  by (auto simp: cache_nonneg_def async_get_cache_def)

lemma or_default_nonneg:
  "cache_nonneg c \<Longrightarrow> counter_nonneg d \<Longrightarrow> counter_nonneg (or_default (async_get_cache k c) d)"
  by (auto simp: or_default_def dest: get_cache_nonneg split: option.splits)

lemma set_cache_nonneg:
  "cache_nonneg c \<Longrightarrow> counter_nonneg v \<Longrightarrow> cache_nonneg (async_set_cache k v ttl c)"
  by (auto simp: cache_nonneg_def async_set_cache_def)

lemma batch_set_cache_nonneg:
  "cache_nonneg c \<Longrightarrow> writes_nonneg ws \<Longrightarrow> cache_nonneg (async_batch_set_cache ws ttl c)"
  by (induction ws arbitrary: c) (auto simp: writes_nonneg_def set_cache_nonneg)

lemma increment_cache_nonneg: "cache_nonneg (async_increment_cache v c) = cache_nonneg c"
  by (simp add: cache_nonneg_def async_increment_cache_def)

lemma expire_nonneg: "cache_nonneg c \<Longrightarrow> cache_nonneg (expire k c)"
  by (auto simp: cache_nonneg_def expire_def split: if_splits)

lemma writes_nonneg_append:
  "writes_nonneg (xs @ ys) = (writes_nonneg xs \<and> writes_nonneg ys)"
  by (simp add: writes_nonneg_def)

lemma writes_nonneg_single: "writes_nonneg [(k, v)] = counter_nonneg v"
  by (simp add: writes_nonneg_def)

lemma writes_nonneg_Nil: "writes_nonneg []"
  by (simp add: writes_nonneg_def)

lemma check_key_in_limits_nonneg:
  assumes "check_key_in_limits now mp tpm rpm current key t vs = Inr vs'"
    and "writes_nonneg vs" and "\<And>cur. current = Some cur \<Longrightarrow> counter_nonneg cur"
  shows "writes_nonneg vs'"
  using assms
  by (auto simp: check_key_in_limits_def raise_rate_limit_error_def writes_nonneg_append
      writes_nonneg_single fresh_counter_nonneg reserved_nonneg split: option.splits if_splits)

lemma get_all_cache_objects_nonneg:
  "cache_nonneg c \<Longrightarrow> snapshot_nonneg (get_all_cache_objects g a u t e c)"
  by (auto simp: snapshot_nonneg_def get_all_cache_objects_def dest: get_cache_nonneg
      split: option.splits)

lemma api_key_check_nonneg:
  assumes "api_key_check vk now pm p co st = Inr st'"
    and "writes_nonneg (values_to_update_in_cache st)" and "snapshot_nonneg co"
  shows "writes_nonneg (values_to_update_in_cache st')"
  using assms
  by (auto simp: api_key_check_def Let_def raise_rate_limit_error_def writes_nonneg_append
      writes_nonneg_single fresh_counter_nonneg reserved_nonneg snapshot_nonneg_def
      split: option.splits if_splits)

lemma model_check_nonneg:
  assumes "model_check vk now pm p data c st = Inr st'"
    and "writes_nonneg (values_to_update_in_cache st)" and "cache_nonneg c"
  shows "writes_nonneg (values_to_update_in_cache st')"
  using assms
  by (auto simp: model_check_def Let_def raise_rate_limit_error_def writes_nonneg_append
      writes_nonneg_single fresh_counter_nonneg reserved_nonneg
      dest: get_cache_nonneg split: option.splits if_splits)

lemma user_check_nonneg:
  assumes "user_check now pm p co st = Inr st'"
    and "writes_nonneg (values_to_update_in_cache st)" and "snapshot_nonneg co"
  shows "writes_nonneg (values_to_update_in_cache st')"
  using assms
  by (auto simp: user_check_def snapshot_nonneg_def dest!: check_key_in_limits_nonneg
      split: option.splits sum.splits)

lemma team_check_nonneg:
  assumes "team_check now pm p co st = Inr st'"
    and "writes_nonneg (values_to_update_in_cache st)" and "snapshot_nonneg co"
  shows "writes_nonneg (values_to_update_in_cache st')"
  using assms
  by (auto simp: team_check_def snapshot_nonneg_def dest!: check_key_in_limits_nonneg
      split: option.splits sum.splits)

lemma end_user_check_nonneg:
  assumes "end_user_check now pm p co st = Inr st'"
    and "writes_nonneg (values_to_update_in_cache st)" and "snapshot_nonneg co"
  shows "writes_nonneg (values_to_update_in_cache st')"
  using assms
  by (auto simp: end_user_check_def snapshot_nonneg_def dest!: check_key_in_limits_nonneg
      split: option.splits sum.splits if_splits)

lemma scope_checks_nonneg:
  assumes "scope_checks vk now pm p data c = Inr st" and "cache_nonneg c"
  shows "writes_nonneg (values_to_update_in_cache st)"
proof -
  let ?co = "get_all_cache_objects (global_max_parallel_requests data \<noteq> None)
              (map_option (\<lambda>k. request_count_key k pm) (api_key p))
              (map_option (\<lambda>k. request_count_key k pm) (user_id p))
              (map_option (\<lambda>k. request_count_key k pm) (team_id p))
              (map_option (\<lambda>k. request_count_key k pm) (end_user_id p)) c"
  let ?st0 = "\<lparr>values_to_update_in_cache = [], new_val = None, remaining_limits_data = []\<rparr>"
  have co: "snapshot_nonneg ?co"
    using assms(2) by (rule get_all_cache_objects_nonneg)
  from assms(1) obtain st1 st2 st3 st4 where
    s1: "api_key_check vk now pm p ?co ?st0 = Inr st1" and
    s2: "model_check vk now pm p data c st1 = Inr st2" and
    s3: "user_check now pm p ?co st2 = Inr st3" and
    s4: "team_check now pm p ?co st3 = Inr st4" and
    s5: "end_user_check now pm p ?co st4 = Inr st"
    by (auto simp: scope_checks_def Let_def split: sum.splits)
  have w0: "writes_nonneg (values_to_update_in_cache ?st0)"
    by (simp add: writes_nonneg_Nil)
  have w1: "writes_nonneg (values_to_update_in_cache st1)"
    by (rule api_key_check_nonneg [OF s1 w0 co])
  have w2: "writes_nonneg (values_to_update_in_cache st2)"
    by (rule model_check_nonneg [OF s2 w1 assms(2)])
  have w3: "writes_nonneg (values_to_update_in_cache st3)"
    by (rule user_check_nonneg [OF s3 w2 co])
  have w4: "writes_nonneg (values_to_update_in_cache st4)"
    by (rule team_check_nonneg [OF s4 w3 co])
  show ?thesis
    by (rule end_user_check_nonneg [OF s5 w4 co])
qed

lemma global_limit_check_buckets:
  "global_limit_check now data c = Inr c1 \<Longrightarrow> buckets c1 = buckets c"
  by (auto simp: global_limit_check_def async_increment_cache_def raise_rate_limit_error_def
      Let_def split: option.splits if_splits)

lemma cache_nonneg_cong: "buckets c1 = buckets c \<Longrightarrow> cache_nonneg c1 = cache_nonneg c"
  by (simp add: cache_nonneg_def)

lemma pre_call_buckets:
  "buckets (cache_after (async_pre_call_hook vk now pm p data c)) = buckets c"
  by (auto simp: async_pre_call_hook_def dest: global_limit_check_buckets split: sum.splits)

lemma pre_call_task_nonneg:
  assumes "cache_nonneg c" and "batch_set_task (async_pre_call_hook vk now pm p data c) = Some t"
  shows "writes_nonneg (fst t)"
proof -
  from assms(2) obtain c1 st where
    g: "global_limit_check now data c = Inr c1" and
    sc: "scope_checks vk now pm p data c1 = Inr st" and
    t: "t = (values_to_update_in_cache st, 60)"
    by (auto simp: async_pre_call_hook_def split: sum.splits)
  from g have "cache_nonneg c1"
    using assms(1) by (simp add: cache_nonneg_cong [OF global_limit_check_buckets])
  with sc show ?thesis
    unfolding t by (simp add: scope_checks_nonneg)
qed

lemma default_nonneg:
  "counter_nonneg \<lparr>current_requests = 1, current_tpm = 0, current_rpm = 0\<rparr>"
  "0 \<le> t \<Longrightarrow> counter_nonneg \<lparr>current_requests = 1, current_tpm = t, current_rpm = 1\<rparr>"
  by (simp_all add: counter_nonneg_def)

lemma success_api_key_writes_nonneg:
  "cache_nonneg c \<Longrightarrow> 0 \<le> t \<Longrightarrow> writes_nonneg (success_api_key_writes pm k t c)"
  by (simp add: success_api_key_writes_def Let_def writes_nonneg_single writes_nonneg_Nil
      success_new_val_nonneg or_default_nonneg default_nonneg split: option.splits)

lemma success_model_group_writes_nonneg:
  "cache_nonneg c \<Longrightarrow> 0 \<le> t \<Longrightarrow> writes_nonneg (success_model_group_writes pm k g md t c)"
  by (simp add: success_model_group_writes_def Let_def writes_nonneg_single writes_nonneg_Nil
      success_new_val_nonneg or_default_nonneg default_nonneg)

lemma success_id_writes_nonneg:
  "cache_nonneg c \<Longrightarrow> 0 \<le> t \<Longrightarrow> writes_nonneg (success_id_writes pm i t c)"
  by (simp add: success_id_writes_def Let_def writes_nonneg_single writes_nonneg_Nil
      success_new_val_nonneg or_default_nonneg default_nonneg split: option.splits)

lemma success_event_nonneg:
  assumes "cache_nonneg c" and "0 \<le> total_tokens_of response"
  shows "cache_nonneg (async_log_success_event pm kwargs response c)"
proof (cases "kw_metadata kwargs")
  case None
  then show ?thesis using assms(1) by (simp add: async_log_success_event_def)
next
  case (Some md)
  let ?c1 = "if md_global_max_parallel_requests md \<noteq> None then async_increment_cache (- 1) c else c"
  have c1: "cache_nonneg ?c1"
    using assms(1) by (simp add: increment_cache_nonneg)
  show ?thesis
    using Some assms c1
    by (simp add: async_log_success_event_def Let_def batch_set_cache_nonneg writes_nonneg_append
        success_api_key_writes_nonneg success_model_group_writes_nonneg success_id_writes_nonneg
        del: async_batch_set_cache.simps)
qed

lemma failure_event_nonneg:
  assumes "cache_nonneg c"
  shows "cache_nonneg (async_log_failure_event pm kwargs c)"
  using assms
  by (simp add: async_log_failure_event_def Let_def increment_cache_nonneg default_nonneg
      set_cache_nonneg failure_new_val_nonneg or_default_nonneg split: option.splits)

lemma gate_step_nonneg:
  assumes "gate_nonneg s" and "tokens_nonneg op"
  shows "gate_nonneg (gate_step s op)"
proof (cases op)
  case (PreCall vk now pm p data)
  let ?r = "async_pre_call_hook vk now pm p data (store s)"
  have a: "cache_nonneg (cache_after ?r)"
    using assms(1) by (simp add: gate_nonneg_def cache_nonneg_cong [OF pre_call_buckets])
  have b: "\<And>t. batch_set_task ?r = Some t \<Longrightarrow> writes_nonneg (fst t)"
    using assms(1) by (auto simp: gate_nonneg_def intro: pre_call_task_nonneg)
  show ?thesis
    using PreCall a b assms(1)
    by (auto simp: gate_nonneg_def Let_def split: option.splits)
next
  case (RunTask i)
  show ?thesis
  proof (cases "i < length (tasks s)")
    case True
    then have "tasks s ! i \<in> set (tasks s)" by simp
    then have w: "writes_nonneg (fst (tasks s ! i))"
      using assms(1) by (simp add: gate_nonneg_def list_all_iff)
    have "set (take i (tasks s) @ drop (Suc i) (tasks s)) \<subseteq> set (tasks s)"
      by (auto dest: in_set_takeD in_set_dropD)
    then have "list_all (\<lambda>t. writes_nonneg (fst t)) (take i (tasks s) @ drop (Suc i) (tasks s))"
      using assms(1) unfolding gate_nonneg_def list_all_iff by blast
    then show ?thesis
      using RunTask True w assms(1)
      by (simp add: gate_nonneg_def run_batch_set_task_def batch_set_cache_nonneg)
  next
    case False
    then show ?thesis using RunTask assms(1) by simp
  qed
next
  case (LogSuccess pm kwargs response)
  then show ?thesis
    using assms by (simp add: gate_nonneg_def success_event_nonneg)
next
  case (LogFailure pm kwargs)
  then show ?thesis
    using assms by (simp add: gate_nonneg_def failure_event_nonneg)
next
  case (Expire k)
  then show ?thesis
    using assms by (simp add: gate_nonneg_def expire_nonneg)
qed

lemma gate_run_nonneg:
  "gate_nonneg s \<Longrightarrow> list_all tokens_nonneg ops \<Longrightarrow> gate_nonneg (gate_run s ops)"
  unfolding gate_run_def
  by (induction ops arbitrary: s) (auto simp: gate_step_nonneg)

text \<open>
  Claim C2: from a gate whose stored and pending triples are non-negative (the empty gate
  is one), after each operation of any sequence of admissions, task runs, success and
  failure reconciliations and expiries whose reported \<^verbatim>\<open>total_tokens\<close> are non-negative,
  every stored triple has \<open>current_requests \<ge> 0\<close>, \<open>current_tpm \<ge> 0\<close> and
  \<open>current_rpm \<ge> 0\<close>. The state after each operation is the run of a prefix
  \<open>take n ops\<close>.
\<close>

theorem counters_stay_nonneg:
  assumes "gate_nonneg s" and "list_all tokens_nonneg ops"
  shows "\<forall>k v ttl. buckets (store (gate_run s (take n ops))) k = Some (v, ttl) \<longrightarrow>
           0 \<le> current_requests v \<and> 0 \<le> current_tpm v \<and> 0 \<le> current_rpm v"
proof -
  have "list_all tokens_nonneg (take n ops)"
    using assms(2) unfolding list_all_iff by (blast dest: in_set_takeD)
  with assms(1) have "gate_nonneg (gate_run s (take n ops))"
    by (rule gate_run_nonneg)
  then show ?thesis
    by (simp add: gate_nonneg_def cache_nonneg_def counter_nonneg_def)
qed

theorem counters_stay_nonneg_witness:
  "gate_nonneg empty_gate \<and> list_all tokens_nonneg sample_ops
   \<and> cache_nonneg (store (gate_run empty_gate (take 3 sample_ops)))"
proof -
  have a: "gate_nonneg empty_gate"
    by (simp add: gate_nonneg_def empty_gate_def cache_nonneg_def empty_cache_def)
  have b: "list_all tokens_nonneg sample_ops"
    by (simp add: sample_ops_def total_tokens_of_def)
  show ?thesis
    using a b counters_stay_nonneg [OF a b, of 3]
    by (simp add: cache_nonneg_def counter_nonneg_def)
qed

text \<open>
  The definitions a concrete run of the hooks unfolds.
\<close>

lemmas hook_defs =
  async_pre_call_hook_def metadata_written_def global_limit_check_def scope_checks_def
  get_all_cache_objects_def api_key_check_def model_check_def user_check_def team_check_def
  end_user_check_def check_key_in_limits_def raise_rate_limit_error_def or_maxsize_def
  sys_maxsize_def truthy_def limit_for_model_def reached_def remaining_limits_def
  get_key_model_tpm_limit_def get_key_model_rpm_limit_def async_get_cache_def
  async_get_cache_global_def async_increment_cache_def async_set_cache_def
  request_count_key_def model_request_count_key_def fresh_counter_def reserved_def
  run_batch_set_task_def async_log_success_event_def async_log_failure_event_def
  failure_global_max_parallel_requests_def failure_user_api_key_def key_of_def
  total_tokens_of_def success_api_key_writes_def success_model_group_writes_def
  success_id_writes_def or_default_def success_new_val_def failure_new_val_def
  str_opt_def str_int_opt_def Let_def

lemmas sample_defs =
  no_auth_def no_data_def no_metadata_def kwargs_of_def sample_minute_def
  empty_gate_def empty_cache_def gate_run_def

lemma str_int_1: "str_int 1 = ''1''"
  by (simp add: str_int_def str_nat.simps digit_char_def)

lemma str_int_0: "str_int 0 = ''0''"
  by (simp add: str_int_def str_nat.simps digit_char_def)

text \<open>
  The sample run: an admission, its batch write, then a success with 137 tokens leave
  the key's bucket at \<open>{0, 137, 1}\<close>.
\<close>

lemma sample_run_value:
  "buckets (store (gate_run empty_gate (take 3 sample_ops))) ''sk-1::2024-05-17-13-42::request_count''
     = Some (\<lparr>current_requests = 0, current_tpm = 137, current_rpm = 1\<rparr>, 60)"
  by (simp add: sample_ops_def hook_defs sample_defs)

subsection \<open>The global in-flight cap\<close>

text \<open>
  Claim C1, evaluated on the code. With \<^verbatim>\<open>global_max_parallel_requests=1\<close> in the request
  metadata and no global counter in the cache, the hook reads the absent counter as 1,
  finds \<open>1 \<ge> 1\<close> and rejects the first admission with "Hit Global Limit"; it leaves the
  cache as it was, so a second admission is rejected in the same way. This holds for every
  principal, clock reading and remaining request data.
\<close>

theorem fresh_global_counter_rejects_first:
  "async_pre_call_hook vk now pm p (data\<lparr>global_max_parallel_requests := Some 1\<rparr>)
      (c\<lparr>global_requests := None\<rparr>)
   = \<lparr>outcome = Inl \<lparr>status_code = 429,
         detail = ''Max parallel request limit reached Hit Global Limit: Limit=1, current: 1'',
         retry_after = time_to_next_minute now\<rparr>,
      cache_after = c\<lparr>global_requests := None\<rparr>, batch_set_task = None, metadata_update = []\<rparr>
   \<and> contains_str ''Global Limit''
        ''Max parallel request limit reached Hit Global Limit: Limit=1, current: 1''"
  by (simp add: async_pre_call_hook_def global_limit_check_def async_get_cache_global_def
      raise_rate_limit_error_def str_opt_def str_int_1)

text \<open>
  The same cap with a counter that is present and 0 (as after an admission and its
  reconciliation under a larger cap) passes the check and increments the counter.
\<close>

lemma global_counter_zero_admits:
  "global_limit_check now (data\<lparr>global_max_parallel_requests := Some 1\<rparr>)
      (c\<lparr>global_requests := Some 0\<rparr>) = Inr (c\<lparr>global_requests := Some 1\<rparr>)"
  by (simp add: global_limit_check_def async_get_cache_global_def async_increment_cache_def)

subsection \<open>Success reconciliation of an absent counter\<close>

text \<open>
  Claim C3, evaluated on the code. A success with 137 tokens on an empty cache, for a
  request with a key, a user, a team and an end user: the key's absent counter is read as
  \<open>{1, 0, 0}\<close> and becomes \<open>{0, 137, 1}\<close>, but the absent counters of the user, the team
  and the end user are read as \<open>{1, total_tokens, 1}\<close> and become \<open>{0, 274, 2}\<close>: the
  tokens and the request are counted twice.
\<close>

theorem success_absent_user_counter_counts_twice:
  "(let c = async_log_success_event sample_minute
              ((kwargs_of (no_metadata\<lparr>md_user_api_key := KeyValue ''sk-1'',
                                       md_user_api_key_user_id := Some ''u1'',
                                       md_user_api_key_team_id := Some ''t1''\<rparr>) [])
                 \<lparr>kw_user := Some ''e1''\<rparr>)
              (ModelResponse 137) empty_cache
    in buckets c ''sk-1::2024-05-17-13-42::request_count''
         = Some (\<lparr>current_requests = 0, current_tpm = 137, current_rpm = 1\<rparr>, 60)
     \<and> buckets c ''u1::2024-05-17-13-42::request_count''
         = Some (\<lparr>current_requests = 0, current_tpm = 274, current_rpm = 2\<rparr>, 60)
     \<and> buckets c ''t1::2024-05-17-13-42::request_count''
         = Some (\<lparr>current_requests = 0, current_tpm = 274, current_rpm = 2\<rparr>, 60)
     \<and> buckets c ''e1::2024-05-17-13-42::request_count''
         = Some (\<lparr>current_requests = 0, current_tpm = 274, current_rpm = 2\<rparr>, 60))"
  by (simp add: hook_defs sample_defs)

text \<open>The two defaults, for any identifier and any token count.\<close>

lemma success_api_key_writes_absent:
  "async_get_cache (request_count_key k pm) c = None \<Longrightarrow>
   success_api_key_writes pm (Some k) t c =
     [(request_count_key k pm, \<lparr>current_requests = 0, current_tpm = t, current_rpm = 1\<rparr>)]"
  by (simp add: success_api_key_writes_def or_default_def success_new_val_def)

lemma success_id_writes_absent:
  "async_get_cache (request_count_key i pm) c = None \<Longrightarrow>
   success_id_writes pm (Some i) t c =
     [(request_count_key i pm, \<lparr>current_requests = 0, current_tpm = t + t, current_rpm = 2\<rparr>)]"
  by (simp add: success_id_writes_def or_default_def success_new_val_def)

subsection \<open>Unbounded limits\<close>




text \<open>
  The same through the hook: a second admission of the user with no limit, after the
  first admission's write has landed, is admitted and schedules the incremented counter.
\<close>

lemma unbounded_user_scope_second_write:
  "batch_set_task (async_pre_call_hook ''key'' sample_now sample_minute
      (no_auth\<lparr>user_id := Some ''u1''\<rparr>) no_data
      (async_set_cache ''u1::2024-05-17-13-42::request_count''
         \<lparr>current_requests = 1, current_tpm = 0, current_rpm = 0\<rparr> 60 empty_cache))
     = Some ([(''u1::2024-05-17-13-42::request_count'',
               \<lparr>current_requests = 2, current_tpm = 0, current_rpm = 0\<rparr>)], 60)"
  by (simp add: hook_defs sample_defs)

subsection \<open>Per-model limits\<close>

lemma after_first_admit_bucket:
  "buckets (after_first_admit vk now) ''sk-1::gpt-4::2024-05-17-13-42::request_count''
     = Some (\<lparr>current_requests = 1, current_tpm = 0, current_rpm = 0\<rparr>, 60)"
  by (simp add: after_first_admit_def gpt4_auth_def hook_defs sample_defs)

text \<open>
  Claim C6 as stated fails: with no reconciliation between the two admissions, the first
  admission's write leaves \<open>current_rpm = 0\<close>, and the second admission for \<^verbatim>\<open>gpt-4\<close> is
  admitted.
\<close>

theorem second_admit_without_reconciliation_admitted:
  "outcome (async_pre_call_hook ''key'' sample_now sample_minute gpt4_auth
      (no_data\<lparr>model := Some ''gpt-4''\<rparr>) (after_first_admit ''key'' sample_now)) = Inr ()"
  by (simp add: after_first_admit_def gpt4_auth_def hook_defs sample_defs)

text \<open>
  Claim C6, amended. \<open>current_rpm\<close> is advanced by the success hook. Once the first
  request's success reconciliation has run (whatever its token count), a second admission
  for \<^verbatim>\<open>gpt-4\<close> in the same minute is rejected with a 429 whose detail contains
  "RPM limit for model: gpt-4", and an admission for \<^verbatim>\<open>gpt-3.5\<close> in the same minute
  succeeds.
\<close>

theorem model_rpm_limit_after_success:
  "(\<exists>e. outcome (async_pre_call_hook vk now sample_minute gpt4_auth
            (no_data\<lparr>model := Some ''gpt-4''\<rparr>) (after_first_success vk now t)) = Inl e
        \<and> status_code e = 429
        \<and> contains_str ''RPM limit for model: gpt-4'' (detail e))
   \<and> outcome (async_pre_call_hook vk now sample_minute gpt4_auth
            (no_data\<lparr>model := Some ''gpt-3.5''\<rparr>) (after_first_success vk now t)) = Inr ()"
proof -
  have b: "buckets (after_first_success vk now t) ''sk-1::gpt-4::2024-05-17-13-42::request_count''
     = Some (\<lparr>current_requests = 0, current_tpm = t, current_rpm = 1\<rparr>, 60)"
    by (simp add: after_first_success_def gpt4_auth_def hook_defs sample_defs)
  have b2: "buckets (after_first_success vk now t) ''sk-1::gpt-3.5::2024-05-17-13-42::request_count''
     = None"
    by (simp add: after_first_success_def gpt4_auth_def hook_defs sample_defs)
  have r: "outcome (async_pre_call_hook vk now sample_minute gpt4_auth
            (no_data\<lparr>model := Some ''gpt-4''\<rparr>) (after_first_success vk now t))
        = Inl \<lparr>status_code = 429,
               detail = ''Max parallel request limit reached Hit RPM limit for model: gpt-4 on ''
                 @ vk @ '': sk-1. rpm_limit: 1, current_rpm 1 '',
               retry_after = time_to_next_minute now\<rparr>"
    using b by (simp add: gpt4_auth_def hook_defs sample_defs str_int_1)
  have c: "contains_str ''RPM limit for model: gpt-4''
            (''Max parallel request limit reached Hit RPM limit for model: gpt-4 on ''
                 @ vk @ '': sk-1. rpm_limit: 1, current_rpm 1 '')"
    by (rule contains_strI [where p = "''Max parallel request limit reached Hit ''"]) simp
  have a: "outcome (async_pre_call_hook vk now sample_minute gpt4_auth
            (no_data\<lparr>model := Some ''gpt-3.5''\<rparr>) (after_first_success vk now t)) = Inr ()"
    using b2 by (simp add: gpt4_auth_def hook_defs sample_defs)
  show ?thesis
    using r c a by simp
qed

subsection \<open>The hard-zero rule\<close>

lemma or_maxsize_zero: "or_maxsize (Some 0) = 0"
  by (simp add: or_maxsize_def)

lemma api_key_check_zero:
  assumes "api_key p = Some k"
    and "max_parallel_requests p = Some 0 \<or> tpm_limit p = Some 0 \<or> rpm_limit p = Some 0"
  shows "\<exists>e. api_key_check vk now pm p co st = Inl e"
  using assms
  by (auto simp: api_key_check_def Let_def raise_rate_limit_error_def or_maxsize_zero sys_maxsize_def)

lemma check_key_in_limits_zero:
  assumes "tpm = 0 \<or> rpm = 0"
    and "\<And>cur. current = Some cur \<Longrightarrow> counter_nonneg cur"
  shows "\<exists>e. check_key_in_limits now mp tpm rpm current key t vs = Inl e"
  using assms
  by (cases current) (auto simp: check_key_in_limits_def raise_rate_limit_error_def counter_nonneg_def)

lemma user_check_zero:
  assumes "user_id p = Some u" and "user_tpm_limit p = Some 0 \<or> user_rpm_limit p = Some 0"
    and "snapshot_nonneg co"
  shows "\<exists>e. user_check now pm p co st = Inl e"
proof -
  have z: "or_maxsize (user_tpm_limit p) = 0 \<or> or_maxsize (user_rpm_limit p) = 0"
    using assms(2) by (auto simp: or_maxsize_zero)
  have n: "\<And>cur. co_request_count_user_id co = Some cur \<Longrightarrow> counter_nonneg cur"
    using assms(3) by (simp add: snapshot_nonneg_def)
  obtain e where "check_key_in_limits now sys_maxsize (or_maxsize (user_tpm_limit p))
      (or_maxsize (user_rpm_limit p)) (co_request_count_user_id co) (request_count_key u pm)
      ''user'' (values_to_update_in_cache st) = Inl e"
    using check_key_in_limits_zero [OF z n] by blast
  then show ?thesis
    using assms(1) by (simp add: user_check_def)
qed

lemma team_check_zero:
  assumes "team_id p = Some u" and "team_tpm_limit p = Some 0 \<or> team_rpm_limit p = Some 0"
    and "snapshot_nonneg co"
  shows "\<exists>e. team_check now pm p co st = Inl e"
proof -
  have z: "or_maxsize (team_tpm_limit p) = 0 \<or> or_maxsize (team_rpm_limit p) = 0"
    using assms(2) by (auto simp: or_maxsize_zero)
  have n: "\<And>cur. co_request_count_team_id co = Some cur \<Longrightarrow> counter_nonneg cur"
    using assms(3) by (simp add: snapshot_nonneg_def)
  obtain e where "check_key_in_limits now sys_maxsize (or_maxsize (team_tpm_limit p))
      (or_maxsize (team_rpm_limit p)) (co_request_count_team_id co) (request_count_key u pm)
      ''team'' (values_to_update_in_cache st) = Inl e"
    using check_key_in_limits_zero [OF z n] by blast
  then show ?thesis
    using assms(1) by (simp add: team_check_def)
qed

lemma end_user_check_zero:
  assumes "truthy (end_user_id p)"
    and "end_user_tpm_limit p = Some 0 \<or> end_user_rpm_limit p = Some 0"
    and "snapshot_nonneg co"
  shows "\<exists>e. end_user_check now pm p co st = Inl e"
proof -
  have z: "or_maxsize (end_user_tpm_limit p) = 0 \<or> or_maxsize (end_user_rpm_limit p) = 0"
    using assms(2) by (auto simp: or_maxsize_zero)
  have n: "\<And>cur. co_request_count_end_user_id co = Some cur \<Longrightarrow> counter_nonneg cur"
    using assms(3) by (simp add: snapshot_nonneg_def)
  obtain e where "check_key_in_limits now sys_maxsize (or_maxsize (end_user_tpm_limit p))
      (or_maxsize (end_user_rpm_limit p)) (co_request_count_end_user_id co)
      (request_count_key (str_opt (end_user_id p)) pm)
      ''customer'' (values_to_update_in_cache st) = Inl e"
    using check_key_in_limits_zero [OF z n] by blast
  then show ?thesis
    using assms(1) by (simp add: end_user_check_def)
qed

text \<open>Every exception of the blocks is a 429.\<close>

lemma raise_rate_limit_error_429:
  "raise_rate_limit_error now d = Inl e \<Longrightarrow> status_code e = 429"
  by (auto simp: raise_rate_limit_error_def)

lemma check_key_in_limits_429:
  "check_key_in_limits now mp tpm rpm current key t vs = Inl e \<Longrightarrow> status_code e = 429"
  by (auto simp: check_key_in_limits_def raise_rate_limit_error_def split: option.splits if_splits)

lemma global_limit_check_429:
  "global_limit_check now data c = Inl e \<Longrightarrow> status_code e = 429"
  by (auto simp: global_limit_check_def raise_rate_limit_error_def Let_def
      split: option.splits if_splits)

lemma api_key_check_429:
  "api_key_check vk now pm p co st = Inl e \<Longrightarrow> status_code e = 429"
  by (auto simp: api_key_check_def raise_rate_limit_error_def Let_def
      split: option.splits if_splits)

lemma model_check_429:
  "model_check vk now pm p data c st = Inl e \<Longrightarrow> status_code e = 429"
  by (auto simp: model_check_def raise_rate_limit_error_def Let_def
      split: option.splits if_splits)

lemma user_check_429: "user_check now pm p co st = Inl e \<Longrightarrow> status_code e = 429"
  by (auto simp: user_check_def dest: check_key_in_limits_429 split: option.splits sum.splits)

lemma team_check_429: "team_check now pm p co st = Inl e \<Longrightarrow> status_code e = 429"
  by (auto simp: team_check_def dest: check_key_in_limits_429 split: option.splits sum.splits)

lemma end_user_check_429: "end_user_check now pm p co st = Inl e \<Longrightarrow> status_code e = 429"
  by (auto simp: end_user_check_def dest: check_key_in_limits_429
      split: option.splits sum.splits if_splits)

lemma scope_checks_429:
  "scope_checks vk now pm p data c = Inl e \<Longrightarrow> status_code e = 429"
  by (auto simp: scope_checks_def Let_def
      dest: api_key_check_429 model_check_429 user_check_429 team_check_429 end_user_check_429
      split: sum.splits)

lemma pre_call_429:
  "outcome (async_pre_call_hook vk now pm p data c) = Inl e \<Longrightarrow> status_code e = 429"
  by (auto simp: async_pre_call_hook_def dest: global_limit_check_429 scope_checks_429
      split: sum.splits)

lemma scope_checks_zero:
  assumes "has_zero_limit p" and "cache_nonneg c"
  shows "\<exists>e. scope_checks vk now pm p data c = Inl e"
proof -
  let ?co = "get_all_cache_objects (global_max_parallel_requests data \<noteq> None)
              (map_option (\<lambda>k. request_count_key k pm) (api_key p))
              (map_option (\<lambda>k. request_count_key k pm) (user_id p))
              (map_option (\<lambda>k. request_count_key k pm) (team_id p))
              (map_option (\<lambda>k. request_count_key k pm) (end_user_id p)) c"
  have co: "snapshot_nonneg ?co"
    using assms(2) by (rule get_all_cache_objects_nonneg)
  show ?thesis
  proof (rule ccontr)
    assume "\<not> ?thesis"
    then obtain st where "scope_checks vk now pm p data c = Inr st"
      by (cases "scope_checks vk now pm p data c") auto
    then obtain st1 st2 st3 st4 where
      s1: "api_key_check vk now pm p ?co
             \<lparr>values_to_update_in_cache = [], new_val = None, remaining_limits_data = []\<rparr> = Inr st1" and
      s2: "model_check vk now pm p data c st1 = Inr st2" and
      s3: "user_check now pm p ?co st2 = Inr st3" and
      s4: "team_check now pm p ?co st3 = Inr st4" and
      s5: "end_user_check now pm p ?co st4 = Inr st"
      by (auto simp: scope_checks_def Let_def split: sum.splits)
    from assms(1) consider
      (key) k where "api_key p = Some k"
        "max_parallel_requests p = Some 0 \<or> tpm_limit p = Some 0 \<or> rpm_limit p = Some 0"
    | (user) u where "user_id p = Some u" "user_tpm_limit p = Some 0 \<or> user_rpm_limit p = Some 0"
    | (team) t where "team_id p = Some t" "team_tpm_limit p = Some 0 \<or> team_rpm_limit p = Some 0"
    | (end_user) "truthy (end_user_id p)"
        "end_user_tpm_limit p = Some 0 \<or> end_user_rpm_limit p = Some 0"
      unfolding has_zero_limit_def by blast
    then show False
    proof cases
      case key
      obtain e where "api_key_check vk now pm p ?co
          \<lparr>values_to_update_in_cache = [], new_val = None, remaining_limits_data = []\<rparr> = Inl e"
        using api_key_check_zero [OF key] by blast
      with s1 show False by simp
    next
      case user
      obtain e where "user_check now pm p ?co st2 = Inl e"
        using user_check_zero [OF user co] by blast
      with s3 show False by simp
    next
      case team
      obtain e where "team_check now pm p ?co st3 = Inl e"
        using team_check_zero [OF team co] by blast
      with s4 show False by simp
    next
      case end_user
      obtain e where "end_user_check now pm p ?co st4 = Inl e"
        using end_user_check_zero [OF end_user co] by blast
      with s5 show False by simp
    qed
  qed
qed

text \<open>
  The hard-zero rule on the scopes of the check-and-reserve rule: when the api-key, user,
  team or end-user scope of the principal has a limit of exactly 0, every admission is
  rejected with a 429, whether the scope's counter is absent or holds any non-negative
  triple.
\<close>

lemma zero_limit_rejects:
  assumes "has_zero_limit p" and "cache_nonneg c"
  shows "\<exists>e. outcome (async_pre_call_hook vk now pm p data c) = Inl e \<and> status_code e = 429"
proof (cases "global_limit_check now data c")
  case (Inl e)
  then show ?thesis
    by (auto simp: async_pre_call_hook_def dest: global_limit_check_429)
next
  case (Inr c1)
  then have "cache_nonneg c1"
    using assms(2) by (simp add: cache_nonneg_cong [OF global_limit_check_buckets])
  then obtain e where e: "scope_checks vk now pm p data c1 = Inl e"
    using scope_checks_zero [OF assms(1)] by blast
  then have "status_code e = 429"
    by (rule scope_checks_429)
  then show ?thesis
    using Inr e by (simp add: async_pre_call_hook_def)
qed

text \<open>
  Claim C7, evaluated on the code. The per-(api_key, model) block has no zero check for
  an absent counter: with \<^verbatim>\<open>model_rpm_limit = {"gpt-4": 0}\<close> and an empty cache, an
  admission for \<^verbatim>\<open>gpt-4\<close> is admitted and a write of \<open>{1, 0, 0}\<close> is scheduled.
\<close>

theorem model_zero_limit_fresh_admits:
  "outcome (async_pre_call_hook vk now sample_minute
      (no_auth\<lparr>api_key := Some ''sk-1'', model_rpm_limit := Some [(''gpt-4'', 0)]\<rparr>)
      (no_data\<lparr>model := Some ''gpt-4''\<rparr>) empty_cache) = Inr ()
   \<and> batch_set_task (async_pre_call_hook vk now sample_minute
      (no_auth\<lparr>api_key := Some ''sk-1'', model_rpm_limit := Some [(''gpt-4'', 0)]\<rparr>)
      (no_data\<lparr>model := Some ''gpt-4''\<rparr>) empty_cache)
     = Some ([(''sk-1::gpt-4::2024-05-17-13-42::request_count'',
               \<lparr>current_requests = 1, current_tpm = 0, current_rpm = 0\<rparr>)], 60)"
  by (simp add: hook_defs sample_defs)

text \<open>
  Once that write has landed the counter is present, and the same block rejects: the
  zero limit is enforced for a present counter, and missed for an absent one.
\<close>

lemma model_zero_limit_present_rejects:
  "\<exists>e. outcome (async_pre_call_hook vk now sample_minute
      (no_auth\<lparr>api_key := Some ''sk-1'', model_rpm_limit := Some [(''gpt-4'', 0)]\<rparr>)
      (no_data\<lparr>model := Some ''gpt-4''\<rparr>)
      (async_set_cache ''sk-1::gpt-4::2024-05-17-13-42::request_count''
         \<lparr>current_requests = 1, current_tpm = 0, current_rpm = 0\<rparr> 60 empty_cache)) = Inl e"
  by (simp add: hook_defs sample_defs)

subsection \<open>A rejection writes no bucket\<close>

text \<open>
  Claim C8: whenever the pre-call hook raises, it has created no batch-write task, and no
  bucket of the cache has changed: the pending writes gathered by the blocks before the
  rejecting one are dropped with the hook's local list. The task is created only on the
  normal return. In the state machine, the step leaves the pending tasks and the buckets
  as they were.
\<close>

theorem rejected_admission_writes_nothing:
  assumes "outcome (async_pre_call_hook vk now pm p data (store s)) = Inl e"
  shows "batch_set_task (async_pre_call_hook vk now pm p data (store s)) = None
       \<and> buckets (cache_after (async_pre_call_hook vk now pm p data (store s))) = buckets (store s)
       \<and> tasks (gate_step s (PreCall vk now pm p data)) = tasks s
       \<and> buckets (store (gate_step s (PreCall vk now pm p data))) = buckets (store s)"
proof -
  have "batch_set_task (async_pre_call_hook vk now pm p data (store s)) = None"
    using assms by (auto simp: async_pre_call_hook_def split: sum.splits)
  then show ?thesis
    by (simp add: pre_call_buckets Let_def)
qed

text \<open>
  A run where the api-key block has appended a write before the user block rejects.
\<close>

lemma zero_user_key_scope_had_write:
  "api_key_check ''key'' sample_now sample_minute zero_user_auth
      (get_all_cache_objects False (Some ''sk-1::2024-05-17-13-42::request_count'')
         (Some ''u1::2024-05-17-13-42::request_count'') None None empty_cache)
      \<lparr>values_to_update_in_cache = [], new_val = None, remaining_limits_data = []\<rparr>
   = Inr \<lparr>values_to_update_in_cache =
            [(''sk-1::2024-05-17-13-42::request_count'',
              \<lparr>current_requests = 1, current_tpm = 0, current_rpm = 0\<rparr>)],
          new_val = Some \<lparr>current_requests = 1, current_tpm = 0, current_rpm = 0\<rparr>,
          remaining_limits_data = []\<rparr>"
  by (simp add: zero_user_auth_def hook_defs sample_defs)

lemma zero_user_rejected:
  "\<exists>e. outcome (async_pre_call_hook ''key'' sample_now sample_minute zero_user_auth no_data
            (store empty_gate)) = Inl e"
  by (simp add: zero_user_auth_def hook_defs sample_defs)

theorem rejected_admission_writes_nothing_witness:
  "(\<exists>e. outcome (async_pre_call_hook ''key'' sample_now sample_minute zero_user_auth no_data
            (store empty_gate)) = Inl e)
   \<and> batch_set_task (async_pre_call_hook ''key'' sample_now sample_minute zero_user_auth no_data
            (store empty_gate)) = None
   \<and> tasks (gate_step empty_gate (PreCall ''key'' sample_now sample_minute zero_user_auth no_data)) = []
   \<and> buckets (store (gate_step empty_gate
        (PreCall ''key'' sample_now sample_minute zero_user_auth no_data)))
        ''sk-1::2024-05-17-13-42::request_count'' = None"
proof -
  obtain e where e: "outcome (async_pre_call_hook ''key'' sample_now sample_minute zero_user_auth
      no_data (store empty_gate)) = Inl e"
    using zero_user_rejected by blast
  have t: "tasks empty_gate = []" and b: "buckets (store empty_gate) = (\<lambda>k. None)"
    by (simp_all add: empty_gate_def empty_cache_def)
  show ?thesis
    using e rejected_admission_writes_nothing [OF e]
    by (simp only: t b) simp
qed

text \<open>The task exists exactly when the hook returns normally.\<close>

lemma task_only_when_admitted:
  "batch_set_task (async_pre_call_hook vk now pm p data c) \<noteq> None
   \<longleftrightarrow> outcome (async_pre_call_hook vk now pm p data c) = Inr ()"
  by (auto simp: async_pre_call_hook_def split: sum.splits)

text \<open>
  A rejection by the user block after the per-model block has passed: no cache write,
  but the remaining-limit entries are already in the request metadata.
\<close>

lemma rejection_after_model_block_keeps_metadata:
  "(\<exists>e. outcome (async_pre_call_hook ''key'' sample_now sample_minute
            (gpt4_auth\<lparr>user_id := Some ''u1'', user_rpm_limit := Some 0\<rparr>)
            (no_data\<lparr>model := Some ''gpt-4''\<rparr>) empty_cache) = Inl e)
   \<and> metadata_update (async_pre_call_hook ''key'' sample_now sample_minute
            (gpt4_auth\<lparr>user_id := Some ''u1'', user_rpm_limit := Some 0\<rparr>)
            (no_data\<lparr>model := Some ''gpt-4''\<rparr>) empty_cache)
       = [(''litellm-key-remaining-tokens-gpt-4'', None),
          (''litellm-key-remaining-requests-gpt-4'', Some 1)]"
  by (simp add: gpt4_auth_def hook_defs sample_defs)

subsection \<open>Failure reconciliation\<close>

text \<open>
  Claim C10: when the metadata of the failure hook carries no \<^verbatim>\<open>user_api_key\<close> (the
  metadata or the entry is missing or null), the hook returns with the cache as it was; in
  particular the global counter is not decremented, whether or not
  \<^verbatim>\<open>global_max_parallel_requests\<close> was set.
\<close>

theorem failure_without_key_changes_nothing:
  assumes "failure_user_api_key kwargs = None"
  shows "async_log_failure_event pm kwargs c = c"
  using assms by (simp add: async_log_failure_event_def)

theorem failure_without_key_changes_nothing_witness:
  "failure_user_api_key keyless_failure = None
   \<and> failure_global_max_parallel_requests keyless_failure = Some 5
   \<and> async_log_failure_event sample_minute keyless_failure busy_cache = busy_cache
   \<and> global_requests busy_cache = Some 1"
proof -
  have a: "failure_user_api_key keyless_failure = None"
    by (simp add: keyless_failure_def failure_user_api_key_def kwargs_of_def no_metadata_def
        key_of_def)
  show ?thesis
    using a failure_without_key_changes_nothing [OF a, of sample_minute busy_cache]
    by (simp add: keyless_failure_def failure_global_max_parallel_requests_def kwargs_of_def
        no_metadata_def busy_cache_def)
qed

text \<open>The readings of the metadata that give no key.\<close>

lemma failure_user_api_key_None_iff:
  "failure_user_api_key kwargs = None \<longleftrightarrow>
     (kw_metadata kwargs = None
      \<or> (\<exists>md. kw_metadata kwargs = Some md
            \<and> (md_user_api_key md = KeyMissing \<or> md_user_api_key md = KeyNull)))"
  by (auto simp: failure_user_api_key_def key_of_def split: option.splits key_entry.splits)

text \<open>
  Claim C9, evaluated on the code. A request with no \<^verbatim>\<open>user_api_key\<close> that set
  \<^verbatim>\<open>global_max_parallel_requests\<close> fails with "connection reset": the message does not
  contain the rejection phrase, yet the failure hook returns at its guard
  \<^verbatim>\<open>if user_api_key is None: return\<close> before its decrement, and the global counter
  stays at 1.
\<close>

theorem failure_without_key_keeps_global:
  "\<not> contains_str ''Max parallel request limit reached'' (kw_exception keyless_failure)
   \<and> failure_global_max_parallel_requests keyless_failure = Some 5
   \<and> global_requests (empty_cache\<lparr>global_requests := Some 1\<rparr>) = Some 1
   \<and> global_requests (async_log_failure_event sample_minute keyless_failure
        (empty_cache\<lparr>global_requests := Some 1\<rparr>)) = Some 1"
  by (simp add: keyless_failure_def hook_defs sample_defs)

text \<open>
  The slot that is not released was taken by the admission of that request: the pre-call
  hook increments the global counter whatever the key, and the success hook releases it
  for a request whose \<^verbatim>\<open>user_api_key\<close> is null.
\<close>

lemma keyless_admission_increments_global:
  "outcome (async_pre_call_hook vk now pm no_auth
      (no_data\<lparr>global_max_parallel_requests := Some 5\<rparr>)
      (empty_cache\<lparr>global_requests := Some 0\<rparr>)) = Inr ()
   \<and> global_requests (cache_after (async_pre_call_hook vk now pm no_auth
      (no_data\<lparr>global_max_parallel_requests := Some 5\<rparr>)
      (empty_cache\<lparr>global_requests := Some 0\<rparr>))) = Some 1"
  by (simp add: hook_defs sample_defs)

lemma keyless_success_decrements_global:
  "global_requests (async_log_success_event sample_minute
      (kwargs_of (no_metadata\<lparr>md_global_max_parallel_requests := Some 5\<rparr>) [])
      OtherResponse (empty_cache\<lparr>global_requests := Some 1\<rparr>)) = Some 0"
  by (simp add: hook_defs sample_defs)

text \<open>
  For a failure hook whose metadata carries a \<^verbatim>\<open>user_api_key\<close>, the hook does what the
  claim says. When the message contains "Max parallel request limit reached" the cache is
  left as it was. Otherwise the global counter is decremented when
  \<^verbatim>\<open>global_max_parallel_requests\<close> was set (an absent counter becomes \<open>-1\<close>) and is
  untouched when it was not; the key's bucket is written, with TTL 60, with
  \<open>current_requests = max(current - 1, 0)\<close> and \<open>current_tpm\<close>, \<open>current_rpm\<close>
  unchanged, the counter being read as \<open>{1, 0, 0}\<close> when absent; and no other bucket
  changes.
\<close>

lemma failure_reconciliation:
  assumes "failure_user_api_key kwargs = Some k"
  shows "if contains_str ''Max parallel request limit reached'' (kw_exception kwargs)
         then async_log_failure_event pm kwargs c = c
         else (let c' = async_log_failure_event pm kwargs c;
                   key = request_count_key k pm;
                   current = (case buckets c key of
                                None \<Rightarrow> \<lparr>current_requests = 1, current_tpm = 0, current_rpm = 0\<rparr>
                              | Some (cur, ttl) \<Rightarrow> cur)
               in global_requests c' =
                    (if failure_global_max_parallel_requests kwargs = None then global_requests c
                     else Some (case global_requests c of None \<Rightarrow> - 1 | Some n \<Rightarrow> n - 1))
                  \<and> buckets c' key =
                      Some (\<lparr>current_requests = max (current_requests current - 1) 0,
                             current_tpm = current_tpm current,
                             current_rpm = current_rpm current\<rparr>, 60)
                  \<and> (\<forall>other. other \<noteq> key \<longrightarrow> buckets c' other = buckets c other))"
  using assms
  by (auto simp: async_log_failure_event_def Let_def async_increment_cache_def
      async_set_cache_def async_get_cache_def or_default_def failure_new_val_def
      split: option.splits)

lemma failure_reconciliation_sample:
  "failure_user_api_key keyed_failure = Some ''sk-1''
   \<and> \<not> contains_str ''Max parallel request limit reached'' (kw_exception keyed_failure)
   \<and> global_requests (async_log_failure_event sample_minute keyed_failure busy_cache) = Some 0
   \<and> buckets (async_log_failure_event sample_minute keyed_failure busy_cache)
        ''sk-1::2024-05-17-13-42::request_count''
      = Some (\<lparr>current_requests = 1, current_tpm = 10, current_rpm = 3\<rparr>, 60)
   \<and> buckets (async_log_failure_event sample_minute keyed_failure busy_cache)
        ''u1::2024-05-17-13-42::request_count''
      = Some (\<lparr>current_requests = 2, current_tpm = 10, current_rpm = 3\<rparr>, 60)"
proof -
  have a: "failure_user_api_key keyed_failure = Some ''sk-1''"
    by (simp add: keyed_failure_def failure_user_api_key_def kwargs_of_def no_metadata_def key_of_def)
  have b: "\<not> contains_str ''Max parallel request limit reached'' (kw_exception keyed_failure)"
    by (simp add: keyed_failure_def kwargs_of_def)
  have g: "failure_global_max_parallel_requests keyed_failure = Some 5"
    by (simp add: keyed_failure_def failure_global_max_parallel_requests_def kwargs_of_def
        no_metadata_def)
  have k: "request_count_key ''sk-1'' sample_minute = ''sk-1::2024-05-17-13-42::request_count''"
    by (simp add: request_count_key_def sample_minute_def)
  have gk: "global_requests busy_cache = Some 1"
    and bk: "buckets busy_cache ''sk-1::2024-05-17-13-42::request_count''
        = Some (\<lparr>current_requests = 2, current_tpm = 10, current_rpm = 3\<rparr>, 60)"
    and bu: "buckets busy_cache ''u1::2024-05-17-13-42::request_count''
        = Some (\<lparr>current_requests = 2, current_tpm = 10, current_rpm = 3\<rparr>, 60)"
    by (simp_all add: busy_cache_def)
  let ?c' = "async_log_failure_event sample_minute keyed_failure busy_cache"
  have r: "global_requests ?c' = Some 0
     \<and> buckets ?c' ''sk-1::2024-05-17-13-42::request_count''
        = Some (\<lparr>current_requests = 1, current_tpm = 10, current_rpm = 3\<rparr>, 60)
     \<and> (\<forall>other. other \<noteq> ''sk-1::2024-05-17-13-42::request_count''
            \<longrightarrow> buckets ?c' other = buckets busy_cache other)"
    using b failure_reconciliation [OF a, of sample_minute busy_cache]
    by (simp add: g k gk bk Let_def)
  then have "buckets ?c' ''u1::2024-05-17-13-42::request_count''
      = buckets busy_cache ''u1::2024-05-17-13-42::request_count''"
    by simp
  then show ?thesis
    using a b r bu by simp
qed

end
